theory Spec2Isabelle
  imports Complex_Main "HOL-Library.Word" "HOL-Library.Signed_Division"
begin

unbundle bit_operations_syntax

text \<open>
  A shallow embedding of three parts of opm-common: the summary-number and digit-string
  helpers of the namespace \<^verbatim>\<open>Opm::EclIO\<close>, the handlers of \<^verbatim>\<open>WellInjectionProperties.cpp\<close>, and the UDQ
  expression evaluator as the specification describes it. The definitions come first, the
  results after them. A function that can throw returns a sum, \<open>Inl\<close> with the exception
  or \<open>Inr\<close> with its result; a member function that changes its object takes the object
  and returns it changed.
\<close>

section \<open>EclUtil: summary numbers and digit strings\<close>

text \<open>
  The C++ type \<^verbatim>\<open>int\<close> is a 32-bit two's complement integer. Addition, subtraction and
  multiplication are those of \<^typ>\<open>32 word\<close>; division and remainder truncate towards zero
  and are taken on the signed reading of the operands.
\<close>

type_synonym int32 = "32 word"

text \<open>The operator \<^verbatim>\<open>/\<close> on \<^verbatim>\<open>int\<close>: the quotient, truncated towards zero.\<close>

definition c_div :: "int32 \<Rightarrow> int32 \<Rightarrow> int32" where
  "c_div a b = word_of_int (sint a sdiv sint b)"

text \<open>The operator \<^verbatim>\<open>%\<close> on \<^verbatim>\<open>int\<close>: the remainder, with the sign of the dividend.\<close>

definition c_mod :: "int32 \<Rightarrow> int32 \<Rightarrow> int32" where
  "c_mod a b = word_of_int (sint a smod sint b)"

text \<open>\<^verbatim>\<open>return n1 + (1 << 15)*(n2 + 10);\<close>\<close>

definition combineSummaryNumbers :: "int32 \<Rightarrow> int32 \<Rightarrow> int32" where
  "combineSummaryNumbers n1 n2 = n1 + (push_bit 15 1) * (n2 + 10)"

text \<open>\<^verbatim>\<open>n1 = n % (1 << 15); n2 = (n / (1 << 15)) - 10; return { n1, n2 };\<close>\<close>

definition splitSummaryNumber :: "int32 \<Rightarrow> int32 \<times> int32" where
  "splitSummaryNumber n =
     (let n1 = c_mod n (push_bit 15 1);
          n2 = c_div n (push_bit 15 1) - 10
      in (n1, n2))"

text \<open>
  \<^verbatim>\<open>std::isdigit\<close> of the C library in the default locale: true for the ten characters
  \<^verbatim>\<open>'0'\<close> (code 48) to \<^verbatim>\<open>'9'\<close> (code 57) and for nothing else.
\<close>

definition isdigit :: "char \<Rightarrow> bool" where
  "isdigit c = (48 \<le> (of_char c :: nat) \<and> (of_char c :: nat) \<le> 57)"

text \<open>\<^verbatim>\<open>std::all_of(numstr.begin(), numstr.end(), [](c) { return std::isdigit(c) != 0; })\<close>\<close>

definition is_number :: "string \<Rightarrow> bool" where
  "is_number numstr = list_all (\<lambda>c. isdigit c) numstr"

section \<open>Well injection properties\<close>

subsection \<open>Enumerations and errors\<close>

text \<open>
  Modelled from the spec: the enumeration \<^verbatim>\<open>InjectorType\<close> is declared in
  \<^verbatim>\<open>ScheduleTypes.hpp\<close>, which is missing. The handlers name \<^verbatim>\<open>WATER\<close>, \<^verbatim>\<open>GAS\<close> and \<^verbatim>\<open>OIL\<close>,
  the fluids of the spec's ``well's declared fluid type''; \<^verbatim>\<open>MULTI\<close> is the enumerator they
  do not name.
\<close>

datatype InjectorType = WATER | GAS | OIL | MULTI

text \<open>
  Modelled from the spec: the enumeration \<^verbatim>\<open>InjectorCMode\<close> is declared in \<^verbatim>\<open>Well.hpp\<close>,
  which is missing. Its enumerators are the control modes the handlers name.
\<close>

datatype InjectorCMode = RATE | RESV | BHP | THP | GRUP | CMODE_UNDEFINED

text \<open>
  Modelled from the spec: the enumeration \<^verbatim>\<open>WELTARGCMode\<close> is declared in \<^verbatim>\<open>Well.hpp\<close>,
  which is missing. The handlers name \<^verbatim>\<open>BHP\<close>, \<^verbatim>\<open>ORAT\<close>, \<^verbatim>\<open>WRAT\<close>, \<^verbatim>\<open>GRAT\<close>, \<^verbatim>\<open>THP\<close>,
  \<^verbatim>\<open>VFP\<close>, \<^verbatim>\<open>RESV\<close> and \<^verbatim>\<open>GUID\<close>; \<^verbatim>\<open>LRAT\<close>, \<^verbatim>\<open>CRAT\<close> and \<^verbatim>\<open>LIFT\<close> are the enumerators that
  fall into their last branches. \<^verbatim>\<open>RESV\<close>, \<^verbatim>\<open>BHP\<close> and \<^verbatim>\<open>THP\<close> are names of
  \<^verbatim>\<open>InjectorCMode\<close> as well, and carry the suffix \<open>_targ\<close> here.
\<close>

datatype WELTARGCMode =
  ORAT | WRAT | GRAT | LRAT | CRAT | RESV_targ | BHP_targ | THP_targ | VFP | LIFT | GUID

text \<open>
  Modelled from the spec: the enumeration \<^verbatim>\<open>UDAControl\<close> is declared in \<^verbatim>\<open>UDQEnums.hpp\<close>,
  which is missing. \<^verbatim>\<open>update_uda\<close> and \<^verbatim>\<open>updateUDQActive\<close> name the \<^verbatim>\<open>WCONINJE\<close> controls
  and six of the \<^verbatim>\<open>WELTARG\<close> controls; the production and group controls are the
  enumerators that fall into the \<^verbatim>\<open>default\<close> branch of \<^verbatim>\<open>update_uda\<close>.
\<close>

datatype UDAControl =
    WCONPROD_ORAT | WCONPROD_WRAT | WCONPROD_GRAT | WCONPROD_LRAT
  | WCONPROD_RESV | WCONPROD_BHP | WCONPROD_THP | WCONPROD_LIFT
  | WCONINJE_RATE | WCONINJE_RESV | WCONINJE_BHP | WCONINJE_THP
  | GCONPROD_OIL_TARGET | GCONPROD_WATER_TARGET | GCONPROD_GAS_TARGET | GCONPROD_LIQUID_TARGET
  | GCONINJE_SURFACE_MAX_RATE | GCONINJE_RESV_MAX_RATE
  | GCONINJE_TARGET_REINJ_FRACTION | GCONINJE_TARGET_VOID_FRACTION
  | WELTARG_ORAT | WELTARG_WRAT | WELTARG_GRAT | WELTARG_LRAT
  | WELTARG_RESV | WELTARG_BHP | WELTARG_THP | WELTARG_LIFT

text \<open>
  Modelled from the spec: \<^verbatim>\<open>KeywordLocation\<close> is declared outside the sources; the spec
  speaks of ``a location value threaded through from the deck reader'' that identifies
  ``the file/line'' of a statement. \<^verbatim>\<open>handleWCONINJH\<close> reads its members \<^verbatim>\<open>filename\<close> and
  \<^verbatim>\<open>lineno\<close>.
\<close>

record KeywordLocation =
  filename :: string
  lineno :: nat

text \<open>
  The exceptions the handlers throw, each with its message: \<^verbatim>\<open>std::invalid_argument\<close>,
  \<^verbatim>\<open>std::logic_error\<close>, and \<^verbatim>\<open>OpmInputError\<close> with the location it is given.
\<close>

datatype error =
    invalid_argument string
  | logic_error string
  | OpmInputError string KeywordLocation

subsection \<open>Collaborators that are not among the sources\<close>

text \<open>
  The class \<^verbatim>\<open>UDAValue\<close>, the string conversions of the enumerations and
  \<^verbatim>\<open>UDQ::controlName\<close> are declared and defined outside the sources. They are parameters
  of the model, and every result below holds whatever they are. The type \<open>'u\<close> stands for
  \<^verbatim>\<open>UDAValue\<close>, and the record supplies what the handlers call:
  \<^verbatim>\<open>InjectorTypeFromString\<close>, \<^verbatim>\<open>WellInjectorCModeFromString\<close>, \<^verbatim>\<open>UDQ::controlName\<close> and
  \<^verbatim>\<open>WellWELTARGCMode2String\<close>; and on a \<^verbatim>\<open>UDAValue\<close>: \<^verbatim>\<open>update(double)\<close>,
  \<^verbatim>\<open>update_value(const UDAValue&)\<close>, \<^verbatim>\<open>get<double>()\<close>, \<^verbatim>\<open>is<double>()\<close>,
  \<^verbatim>\<open>get<std::string>()\<close>, \<^verbatim>\<open>is_defined()\<close> and \<^verbatim>\<open>operator*=\<close>. The conversions from a string,
  \<^verbatim>\<open>get<double>()\<close> and \<^verbatim>\<open>operator*=\<close> may throw. A \<^verbatim>\<open>double\<close> is read as a real number;
  the handlers store, copy and compare the values that the results below are about.
\<close>

record 'u externals =
  InjectorTypeFromString :: "string \<Rightarrow> error + InjectorType"
  WellInjectorCModeFromString :: "string \<Rightarrow> error + InjectorCMode"
  controlName :: "UDAControl \<Rightarrow> string"
  WellWELTARGCMode2String :: "WELTARGCMode \<Rightarrow> string"
  uda_update :: "'u \<Rightarrow> real \<Rightarrow> 'u"
  uda_update_value :: "'u \<Rightarrow> 'u \<Rightarrow> 'u"
  uda_get_double :: "'u \<Rightarrow> error + real"
  uda_is_double :: "'u \<Rightarrow> bool"
  uda_get_string :: "'u \<Rightarrow> string"
  uda_is_defined :: "'u \<Rightarrow> bool"
  uda_times :: "'u \<Rightarrow> real \<Rightarrow> error + 'u"

text \<open>
  Modelled from the spec: \<^verbatim>\<open>DeckItem\<close> and \<^verbatim>\<open>DeckRecord\<close> are declared outside the sources;
  the spec takes ``a record/item structure'' as already built by the deck reader. An item
  is given by the results of the accessors that the handlers call on it, always at index
  0: \<^verbatim>\<open>defaultApplied\<close>, \<^verbatim>\<open>hasValue\<close>, \<^verbatim>\<open>getTrimmedString\<close>, \<^verbatim>\<open>get<UDAValue>\<close>, \<^verbatim>\<open>get<int>\<close>,
  \<^verbatim>\<open>get<double>\<close> and \<^verbatim>\<open>getSIDouble\<close>.
\<close>

record 'u DeckItem =
  defaultApplied :: bool
  hasValue :: bool
  getTrimmedString :: string
  getUDAValue :: 'u
  getInt :: int
  getDouble :: real
  getSIDouble :: real

text \<open>
  Modelled from the spec: a record of the deck, as the function \<^verbatim>\<open>record.getItem(name)\<close> from
  the name of an item to the item.
\<close>

type_synonym 'u DeckRecord = "string \<Rightarrow> 'u DeckItem"

subsection \<open>The properties and their control bit mask\<close>

text \<open>
  The data members of \<^verbatim>\<open>Well::WellInjectionProperties\<close>, as the constructor, the
  serialization test object and \<^verbatim>\<open>operator==\<close> list them. \<^verbatim>\<open>VFPTableNumber\<close> and
  \<^verbatim>\<open>injectionControls\<close> are of type \<^verbatim>\<open>int\<close>; neither comes near the bounds of that type, and
  they are integers here.
\<close>

record 'u WellInjectionProperties =
  name :: string
  surfaceInjectionRate :: 'u
  reservoirInjectionRate :: 'u
  BHPTarget :: 'u
  THPTarget :: 'u
  bhp_hist_limit :: real
  thp_hist_limit :: real
  BHPH :: real
  THPH :: real
  VFPTableNumber :: int
  predictionMode :: bool
  injectionControls :: int
  injectorType :: InjectorType
  controlMode :: InjectorCMode
  rsRvInj :: real
  gas_inj_composition :: "real list option"

text \<open>
  Modelled from the spec: the header \<^verbatim>\<open>Well.hpp\<close>, which gives the enumerators of
  \<^verbatim>\<open>InjectorCMode\<close> their values, is missing. The member \<^verbatim>\<open>injectionControls\<close> is an \<^verbatim>\<open>int\<close>
  that the constructor and \<^verbatim>\<open>clearControls\<close> set to 0: the set of active controls as a bit
  mask, with one bit for each control mode
  (\<^verbatim>\<open>RATE = 1, RESV = 2, BHP = 4, THP = 8, GRUP = 16, CMODE_UNDEFINED = 512\<close>). This is
  \<^verbatim>\<open>static_cast<int>\<close> of a control mode.
\<close>

fun InjectorCMode_int :: "InjectorCMode \<Rightarrow> int" where
  "InjectorCMode_int RATE = 1"
| "InjectorCMode_int RESV = 2"
| "InjectorCMode_int BHP = 4"
| "InjectorCMode_int THP = 8"
| "InjectorCMode_int GRUP = 16"
| "InjectorCMode_int CMODE_UNDEFINED = 512"

text \<open>
  Modelled from the spec: \<^verbatim>\<open>hasInjectionControl\<close> is defined in \<^verbatim>\<open>Well.hpp\<close>, which is
  missing. A control is active when the bitwise and of the mask with its bit is not 0.
\<close>

definition hasInjectionControl :: "InjectorCMode \<Rightarrow> 'u WellInjectionProperties \<Rightarrow> bool" where
  "hasInjectionControl controlModeArg w =
     (if (injectionControls w AND InjectorCMode_int controlModeArg) \<noteq> 0 then True else False)"

text \<open>
  Modelled from the spec: \<^verbatim>\<open>dropInjectionControl\<close> is defined in \<^verbatim>\<open>Well.hpp\<close>, which is
  missing. The bit of the control is subtracted from the mask when it is set.
\<close>

definition dropInjectionControl ::
  "InjectorCMode \<Rightarrow> 'u WellInjectionProperties \<Rightarrow> 'u WellInjectionProperties" where
  "dropInjectionControl controlModeArg w =
     (let int_arg = InjectorCMode_int controlModeArg
      in if (injectionControls w AND int_arg) \<noteq> 0
         then w\<lparr>injectionControls := injectionControls w - int_arg\<rparr>
         else w)"

text \<open>
  Modelled from the spec: \<^verbatim>\<open>addInjectionControl\<close> is defined in \<^verbatim>\<open>Well.hpp\<close>, which is
  missing. The bit of the control is added to the mask when it is clear.
\<close>

definition addInjectionControl ::
  "InjectorCMode \<Rightarrow> 'u WellInjectionProperties \<Rightarrow> 'u WellInjectionProperties" where
  "addInjectionControl controlModeArg w =
     (let int_arg = InjectorCMode_int controlModeArg
      in if (injectionControls w AND int_arg) = 0
         then w\<lparr>injectionControls := injectionControls w + int_arg\<rparr>
         else w)"

text \<open>\<^verbatim>\<open>this->injectionControls = 0;\<close>\<close>

definition clearControls :: "'u WellInjectionProperties \<Rightarrow> 'u WellInjectionProperties" where
  "clearControls w = w\<lparr>injectionControls := 0\<rparr>"

subsection \<open>WCONINJE\<close>

text \<open>
  A handler that throws leaves no result: the model returns \<open>Inl\<close> with the exception, and
  \<open>Inr\<close> with the updated properties when the handler returns normally. The statements
  are taken in the order of the source.
\<close>

definition handleWCONINJE ::
  "'u externals \<Rightarrow> 'u DeckRecord \<Rightarrow> real \<Rightarrow> bool \<Rightarrow> string \<Rightarrow> KeywordLocation
   \<Rightarrow> 'u WellInjectionProperties \<Rightarrow> error + 'u WellInjectionProperties" where
  "handleWCONINJE X record bhp_def availableForGroupControl well_name location w =
     (case InjectorTypeFromString X (getTrimmedString (record ''TYPE'')) of
        Inl e \<Rightarrow> Inl e
      | Inr ty \<Rightarrow>
         (let w = w\<lparr>injectorType := ty\<rparr>;
              w = w\<lparr>predictionMode := True\<rparr>;
              w = (if \<not> defaultApplied (record ''RATE'')
                   then addInjectionControl RATE
                          (w\<lparr>surfaceInjectionRate := getUDAValue (record ''RATE'')\<rparr>)
                   else dropInjectionControl RATE w);
              w = (if \<not> defaultApplied (record ''RESV'')
                   then addInjectionControl RESV
                          (w\<lparr>reservoirInjectionRate := getUDAValue (record ''RESV'')\<rparr>)
                   else dropInjectionControl RESV w);
              w = w\<lparr>VFPTableNumber := getInt (record ''VFP_TABLE'')\<rparr>
          in if \<not> defaultApplied (record ''THP'') \<and> VFPTableNumber w = 0
             then Inl (OpmInputError
                         (''Well '' @ well_name @
                          '' must have a VFP table to handle non-zero THP constraint'')
                         location)
             else
              (let w = (if \<not> defaultApplied (record ''THP'')
                        then addInjectionControl THP
                               (w\<lparr>THPTarget := getUDAValue (record ''THP'')\<rparr>)
                        else dropInjectionControl THP w);
                   w = (if defaultApplied (record ''BHP'')
                        then w\<lparr>BHPTarget := uda_update X (BHPTarget w) bhp_def\<rparr>
                        else w\<lparr>BHPTarget := getUDAValue (record ''BHP'')\<rparr>);
                   w = addInjectionControl BHP w;
                   w = (if availableForGroupControl
                        then addInjectionControl GRUP w
                        else dropInjectionControl GRUP w);
                   cmodeString = getTrimmedString (record ''CMODE'')
               in case WellInjectorCModeFromString X cmodeString of
                    Inl e \<Rightarrow> Inl e
                  | Inr controlModeArg \<Rightarrow>
                     if hasInjectionControl controlModeArg w
                     then
                       (let w = w\<lparr>controlMode := controlModeArg\<rparr>;
                            w = w\<lparr>rsRvInj := getSIDouble (record ''VAPOIL_C'')\<rparr>
                        in if injectorType w = OIL \<and> rsRvInj w > 0
                           then
                             (let factor = getSIDouble (record ''VAPOIL_C'')
                                           / getDouble (record ''VAPOIL_C'')
                              in Inr (w\<lparr>rsRvInj := getDouble (record ''VAPOIL_C'') / factor\<rparr>))
                           else Inr w)
                     else Inl (invalid_argument
                                 (''Tried to set invalid control: '' @ cmodeString @
                                  '' for well: '' @ well_name)))))"

subsection \<open>WELTARG and WTMULT\<close>

text \<open>\<^verbatim>\<open>static_cast<int>\<close> of a \<^verbatim>\<open>double\<close> drops the fractional part.\<close>

definition static_cast_int :: "real \<Rightarrow> int" where
  "static_cast_int d = (if 0 \<le> d then \<lfloor>d\<rfloor> else \<lceil>d\<rceil>)"

text \<open>
  \<^verbatim>\<open>handleWELTARG(cmode, new_arg, SiFactorP)\<close>, the chain of comparisons of \<^verbatim>\<open>cmode\<close> in the
  order of the source. A rate target of a fluid that is not the injector's is refused
  with a fixed message.
\<close>

definition handleWELTARG ::
  "'u externals \<Rightarrow> WELTARGCMode \<Rightarrow> 'u \<Rightarrow> real
   \<Rightarrow> 'u WellInjectionProperties \<Rightarrow> error + 'u WellInjectionProperties" where
  "handleWELTARG X cmode new_arg SiFactorP w =
     (if cmode = BHP_targ then
        (if predictionMode w
         then Inr (w\<lparr>BHPTarget := uda_update_value X (BHPTarget w) new_arg\<rparr>)
         else (case uda_get_double X new_arg of
                 Inl e \<Rightarrow> Inl e
               | Inr d \<Rightarrow> Inr (w\<lparr>bhp_hist_limit := d * SiFactorP\<rparr>)))
      else if cmode = ORAT then
        (if injectorType w = OIL
         then Inr (w\<lparr>surfaceInjectionRate :=
                      uda_update_value X (surfaceInjectionRate w) new_arg\<rparr>)
         else Inl (invalid_argument ''Well type must be OIL to set the oil rate''))
      else if cmode = WRAT then
        (if injectorType w = WATER
         then Inr (w\<lparr>surfaceInjectionRate :=
                      uda_update_value X (surfaceInjectionRate w) new_arg\<rparr>)
         else Inl (invalid_argument ''Well type must be WATER to set the water rate''))
      else if cmode = GRAT then
        (if injectorType w = GAS
         then Inr (w\<lparr>surfaceInjectionRate :=
                      uda_update_value X (surfaceInjectionRate w) new_arg\<rparr>)
         else Inl (invalid_argument ''Well type must be GAS to set the gas rate''))
      else if cmode = THP_targ then
        Inr (w\<lparr>THPTarget := uda_update_value X (THPTarget w) new_arg\<rparr>)
      else if cmode = VFP then
        (case uda_get_double X new_arg of
           Inl e \<Rightarrow> Inl e
         | Inr d \<Rightarrow> Inr (w\<lparr>VFPTableNumber := static_cast_int d\<rparr>))
      else if cmode = RESV_targ then
        Inr (w\<lparr>reservoirInjectionRate :=
                 uda_update_value X (reservoirInjectionRate w) new_arg\<rparr>)
      else if cmode \<noteq> GUID then
        Inl (invalid_argument ''Invalid keyword (MODE) supplied'')
      else Inr w)"

text \<open>The lambda \<^verbatim>\<open>update_target\<close> of \<^verbatim>\<open>handleWTMULT\<close>.\<close>

definition update_target :: "'u externals \<Rightarrow> WELTARGCMode \<Rightarrow> real \<Rightarrow> 'u \<Rightarrow> error + 'u" where
  "update_target X cmode factor target =
     (if uda_is_defined X target
      then uda_times X target factor
      else Inl (invalid_argument
                  (''Cannot apply WTMULT to undefined '' @ WellWELTARGCMode2String X cmode @
                   '' target'')))"

text \<open>
  In the \<^verbatim>\<open>default\<close> branch the source constructs a \<^verbatim>\<open>std::invalid_argument\<close> without
  throwing it: the handler returns normally and changes nothing.
\<close>

definition handleWTMULT ::
  "'u externals \<Rightarrow> WELTARGCMode \<Rightarrow> real
   \<Rightarrow> 'u WellInjectionProperties \<Rightarrow> error + 'u WellInjectionProperties" where
  "handleWTMULT X cmode factor w =
     (case cmode of
        BHP_targ \<Rightarrow>
          (case update_target X cmode factor (BHPTarget w) of
             Inl e \<Rightarrow> Inl e | Inr t \<Rightarrow> Inr (w\<lparr>BHPTarget := t\<rparr>))
      | ORAT \<Rightarrow>
          (if injectorType w = OIL
           then (case update_target X cmode factor (surfaceInjectionRate w) of
                   Inl e \<Rightarrow> Inl e | Inr t \<Rightarrow> Inr (w\<lparr>surfaceInjectionRate := t\<rparr>))
           else Inl (invalid_argument ''Well type must be OIL to scale the oil rate''))
      | WRAT \<Rightarrow>
          (if injectorType w = WATER
           then (case update_target X cmode factor (surfaceInjectionRate w) of
                   Inl e \<Rightarrow> Inl e | Inr t \<Rightarrow> Inr (w\<lparr>surfaceInjectionRate := t\<rparr>))
           else Inl (invalid_argument ''Well type must be WATER to scale the oil rate''))
      | GRAT \<Rightarrow>
          (if injectorType w = GAS
           then (case update_target X cmode factor (surfaceInjectionRate w) of
                   Inl e \<Rightarrow> Inl e | Inr t \<Rightarrow> Inr (w\<lparr>surfaceInjectionRate := t\<rparr>))
           else Inl (invalid_argument ''Well type must be GAS to scale the oil rate''))
      | THP_targ \<Rightarrow>
          (case update_target X cmode factor (THPTarget w) of
             Inl e \<Rightarrow> Inl e | Inr t \<Rightarrow> Inr (w\<lparr>THPTarget := t\<rparr>))
      | RESV_targ \<Rightarrow>
          (case update_target X cmode factor (reservoirInjectionRate w) of
             Inl e \<Rightarrow> Inl e | Inr t \<Rightarrow> Inr (w\<lparr>reservoirInjectionRate := t\<rparr>))
      | _ \<Rightarrow> Inr w)"

subsection \<open>WCONINJH\<close>

text \<open>
  \<^verbatim>\<open>OpmLog::warning\<close> is the handler's only effect besides the update of the properties; the
  model returns the messages logged. The one message of \<^verbatim>\<open>handleWCONINJH\<close>,
  ``Problem with keyword WCONINJH / In \<open>file\<close> line \<open>n\<close> / Only RATE and BHP controls supported
  for well \<open>w\<close>. / Selected control \<open>c\<close> reset to RATE, with target = \<open>t\<close>.'', is kept as its
  five arguments.
\<close>

datatype 'u log_message =
  WCONINJH_reset_to_RATE (msg_filename: string) (msg_lineno: nat) (msg_well: string)
    (msg_selected: InjectorCMode) (msg_target: 'u)

text \<open>
  \<^verbatim>\<open>handleWCONINJH(record, vfp_table_nr, bhp_def, is_producer, well_name, loc)\<close>. A control
  mode other than \<^verbatim>\<open>RATE\<close> and \<^verbatim>\<open>BHP\<close> is replaced by \<^verbatim>\<open>RATE\<close>, with a warning.
\<close>

definition handleWCONINJH ::
  "'u externals \<Rightarrow> 'u DeckRecord \<Rightarrow> int \<Rightarrow> real \<Rightarrow> bool \<Rightarrow> string \<Rightarrow> KeywordLocation
   \<Rightarrow> 'u WellInjectionProperties
   \<Rightarrow> error + ('u WellInjectionProperties \<times> 'u log_message list)" where
  "handleWCONINJH X record vfp_table_nr bhp_def is_producer well_name loc w =
     (let typeItem = record ''TYPE''
      in if defaultApplied typeItem
         then Inl (invalid_argument ''Injection type can not be defaulted for keyword WCONINJH'')
         else
          (case InjectorTypeFromString X (getTrimmedString typeItem) of
             Inl e \<Rightarrow> Inl e
           | Inr ty \<Rightarrow>
              (let w = w\<lparr>injectorType := ty\<rparr>;
                   w = (if \<not> defaultApplied (record ''RATE'')
                        then (let injectionRate = getDouble (record ''RATE'')
                              in w\<lparr>surfaceInjectionRate :=
                                      uda_update X (surfaceInjectionRate w) injectionRate\<rparr>)
                        else w);
                   w = (if hasValue (record ''BHP'')
                        then w\<lparr>BHPH := getSIDouble (record ''BHP'')\<rparr> else w);
                   w = (if hasValue (record ''THP'')
                        then w\<lparr>THPH := getSIDouble (record ''THP'')\<rparr> else w);
                   cmodeString = getTrimmedString (record ''CMODE'')
               in case WellInjectorCModeFromString X cmodeString of
                    Inl e \<Rightarrow> Inl e
                  | Inr inputControlMode \<Rightarrow>
                     (let unsupported = \<not> (inputControlMode = RATE \<or> inputControlMode = BHP);
                          newControlMode = (if unsupported then RATE else inputControlMode);
                          warnings = (if unsupported
                                 then [WCONINJH_reset_to_RATE (filename loc) (lineno loc)
                                         well_name inputControlMode (surfaceInjectionRate w)]
                                 else []);
                          w = (if newControlMode = BHP
                               then w\<lparr>bhp_hist_limit := BHPH w\<rparr>
                               else
                                (let switching_from_producer = is_producer;
                                     switching_from_prediction = predictionMode w;
                                     switching_from_BHP_control = (controlMode w = BHP)
                                 in if switching_from_prediction \<or> switching_from_BHP_control
                                       \<or> switching_from_producer
                                    then w\<lparr>bhp_hist_limit := bhp_def\<rparr>
                                    else w));
                          w = addInjectionControl BHP w;
                          w = addInjectionControl newControlMode w;
                          w = w\<lparr>controlMode := newControlMode\<rparr>;
                          w = w\<lparr>predictionMode := False\<rparr>;
                          w = w\<lparr>VFPTableNumber := vfp_table_nr\<rparr>;
                          w = w\<lparr>rsRvInj := getSIDouble (record ''VAPOIL_C'')\<rparr>
                      in if injectorType w = OIL \<and> rsRvInj w > 0
                         then
                           (let factor = getSIDouble (record ''VAPOIL_C'')
                                         / getDouble (record ''VAPOIL_C'')
                            in Inr (w\<lparr>rsRvInj := getDouble (record ''VAPOIL_C'') / factor\<rparr>,
                                    warnings))
                         else Inr (w, warnings)))))"

subsection \<open>The Active-UDA tracker\<close>

text \<open>
  Modelled from the spec: the class \<^verbatim>\<open>UDQActive\<close> and its member \<^verbatim>\<open>update\<close> are missing from
  the sources (only the calls in \<^verbatim>\<open>WellInjectionProperties.cpp\<close> are there). The
  spec gives the contract \<^verbatim>\<open>update(config, value, entity_name, control) -> count\<close>: it
  ``records that a given named control (e.g., a well's BHP target) is currently driven by a
  UDQ/UDA reference rather than a literal number, returning 1 if this registration changed
  tracked state, 0 otherwise''. The tracked state is therefore a partial map from an
  entity name and a control to the name of the UDQ that drives it: a value that is a
  reference is recorded under its entity and control, a literal number removes what was
  recorded there, and the count says whether the map changed.
\<close>

type_synonym UDQActive = "string \<times> UDAControl \<rightharpoonup> string"

text \<open>
  Modelled from the spec: \<^verbatim>\<open>UDQActive::update\<close> is missing from the sources. It returns the
  count, 1 if the registration changed the tracked state and 0 otherwise, with the
  tracker after the registration. \<^verbatim>\<open>is<double>()\<close> tells a literal number from a
  reference, whose name is \<^verbatim>\<open>get<std::string>()\<close>.
\<close>

definition UDQActive_update ::
  "'u externals \<Rightarrow> 'c \<Rightarrow> 'u \<Rightarrow> string \<Rightarrow> UDAControl \<Rightarrow> UDQActive \<Rightarrow> int \<times> UDQActive" where
  "UDQActive_update X udq_config val wgname control active =
     (if uda_is_double X val
      then (if active (wgname, control) = None
            then (0, active)
            else (1, active((wgname, control) := None)))
      else (if active (wgname, control) = Some (uda_get_string X val)
            then (0, active)
            else (1, active((wgname, control) \<mapsto> uda_get_string X val))))"

text \<open>
  \<^verbatim>\<open>updateUDQActive(udq_config, active)\<close>: the tracker is passed by reference; the model
  returns the result together with the tracker after the four calls.
\<close>

definition updateUDQActive ::
  "'u externals \<Rightarrow> 'c \<Rightarrow> 'u WellInjectionProperties \<Rightarrow> UDQActive \<Rightarrow> bool \<times> UDQActive" where
  "updateUDQActive X udq_config w active =
     (let update_count = 0;
          (n, active) = UDQActive_update X udq_config (surfaceInjectionRate w) (name w)
                          WCONINJE_RATE active;
          update_count = update_count + n;
          (n, active) = UDQActive_update X udq_config (reservoirInjectionRate w) (name w)
                          WCONINJE_RESV active;
          update_count = update_count + n;
          (n, active) = UDQActive_update X udq_config (BHPTarget w) (name w)
                          WCONINJE_BHP active;
          update_count = update_count + n;
          (n, active) = UDQActive_update X udq_config (THPTarget w) (name w)
                          WCONINJE_THP active;
          update_count = update_count + n
      in (update_count > 0, active))"

text \<open>
  \<^verbatim>\<open>updateUDQActive(udq_config, cmode, active)\<close>. The operator \<^verbatim>\<open>&&\<close> does not evaluate
  its right operand when the injector type differs: the tracker is then left as it is.
\<close>

definition updateUDQActive_cmode ::
  "'u externals \<Rightarrow> 'c \<Rightarrow> WELTARGCMode \<Rightarrow> 'u WellInjectionProperties \<Rightarrow> UDQActive
   \<Rightarrow> bool \<times> UDQActive" where
  "updateUDQActive_cmode X udq_config cmode w active =
     (case cmode of
        ORAT \<Rightarrow>
          (if injectorType w = OIL
           then (let (n, active) = UDQActive_update X udq_config (surfaceInjectionRate w)
                                     (name w) WELTARG_ORAT active
                 in (n > 0, active))
           else (False, active))
      | WRAT \<Rightarrow>
          (if injectorType w = WATER
           then (let (n, active) = UDQActive_update X udq_config (surfaceInjectionRate w)
                                     (name w) WELTARG_WRAT active
                 in (n > 0, active))
           else (False, active))
      | GRAT \<Rightarrow>
          (if injectorType w = GAS
           then (let (n, active) = UDQActive_update X udq_config (surfaceInjectionRate w)
                                     (name w) WELTARG_GRAT active
                 in (n > 0, active))
           else (False, active))
      | RESV_targ \<Rightarrow>
          (let (n, active) = UDQActive_update X udq_config (reservoirInjectionRate w)
                               (name w) WELTARG_RESV active
           in (n > 0, active))
      | BHP_targ \<Rightarrow>
          (let (n, active) = UDQActive_update X udq_config (BHPTarget w)
                               (name w) WELTARG_BHP active
           in (n > 0, active))
      | THP_targ \<Rightarrow>
          (let (n, active) = UDQActive_update X udq_config (THPTarget w)
                               (name w) WELTARG_THP active
           in (n > 0, active))
      | _ \<Rightarrow> (False, active))"

text \<open>
  \<^verbatim>\<open>update_uda\<close>: the flag \<^verbatim>\<open>update_active\<close> is cleared when a rate control does not
  match the injector type; the value is then neither stored nor registered, and nothing
  is thrown.
\<close>

definition update_uda ::
  "'u externals \<Rightarrow> 'c \<Rightarrow> UDAControl \<Rightarrow> 'u \<Rightarrow> 'u WellInjectionProperties \<Rightarrow> UDQActive
   \<Rightarrow> error + ('u WellInjectionProperties \<times> UDQActive)" where
  "update_uda X udq_config control val w udq_active =
     (let r =
        (case control of
           WCONINJE_RATE \<Rightarrow> Inr (w\<lparr>surfaceInjectionRate := val\<rparr>, True)
         | WELTARG_ORAT \<Rightarrow>
             (if injectorType w = OIL
              then Inr (w\<lparr>surfaceInjectionRate := val\<rparr>, True) else Inr (w, False))
         | WELTARG_WRAT \<Rightarrow>
             (if injectorType w = WATER
              then Inr (w\<lparr>surfaceInjectionRate := val\<rparr>, True) else Inr (w, False))
         | WELTARG_GRAT \<Rightarrow>
             (if injectorType w = GAS
              then Inr (w\<lparr>surfaceInjectionRate := val\<rparr>, True) else Inr (w, False))
         | WCONINJE_RESV \<Rightarrow> Inr (w\<lparr>reservoirInjectionRate := val\<rparr>, True)
         | WELTARG_RESV \<Rightarrow> Inr (w\<lparr>reservoirInjectionRate := val\<rparr>, True)
         | WCONINJE_BHP \<Rightarrow> Inr (w\<lparr>BHPTarget := val\<rparr>, True)
         | WELTARG_BHP \<Rightarrow> Inr (w\<lparr>BHPTarget := val\<rparr>, True)
         | WCONINJE_THP \<Rightarrow> Inr (w\<lparr>THPTarget := val\<rparr>, True)
         | WELTARG_THP \<Rightarrow> Inr (w\<lparr>THPTarget := val\<rparr>, True)
         | _ \<Rightarrow> Inl (logic_error
                      (''Unsupported well injection UDA control '' @ [CHR 0x27] @
                       controlName X control @ [CHR 0x27])))
      in case r of
           Inl e \<Rightarrow> Inl e
         | Inr (w, update_active) \<Rightarrow>
             if update_active
             then Inr (w, snd (UDQActive_update X udq_config val (name w) control udq_active))
             else Inr (w, udq_active))"

subsection \<open>An instance of the collaborators\<close>

text \<open>
  Modelled from the spec: an instance of \<^verbatim>\<open>UDAValue\<close>, which is missing from the sources,
  for the results that are evaluated on a concrete input. The spec describes a control
  target as ``either a literal number or a named UDQ/UDA reference, i.e. a
  \<^verbatim>\<open>UDAValue\<close>''.
\<close>

datatype UDAValue = UDADouble real | UDAString string

text \<open>
  Modelled from the spec: an instance of \<^verbatim>\<open>InjectorTypeFromString\<close>, which is missing from
  the sources. It accepts the names of the enumerators, and \<^verbatim>\<open>WAT\<close> as the test deck writes
  a water injector; any other string is the spec's ``configuration error''.
\<close>

definition InjectorType_of_string :: "string \<Rightarrow> error + InjectorType" where
  "InjectorType_of_string s =
     (if s = ''OIL'' then Inr OIL
      else if s = ''WATER'' then Inr WATER
      else if s = ''WAT'' then Inr WATER
      else if s = ''GAS'' then Inr GAS
      else if s = ''MULTI'' then Inr MULTI
      else Inl (invalid_argument (''Unknown enum state string: '' @ s)))"

text \<open>
  Modelled from the spec: an instance of \<^verbatim>\<open>WellInjectorCModeFromString\<close>, which is missing
  from the sources. It accepts the names of the control modes; any other string is the
  spec's ``invalid control mode string''.
\<close>

definition InjectorCMode_of_string :: "string \<Rightarrow> error + InjectorCMode" where
  "InjectorCMode_of_string s =
     (if s = ''RATE'' then Inr RATE
      else if s = ''RESV'' then Inr RESV
      else if s = ''BHP'' then Inr BHP
      else if s = ''THP'' then Inr THP
      else if s = ''GRUP'' then Inr GRUP
      else Inl (invalid_argument (''Unknown enum state string: '' @ s)))"

text \<open>
  Modelled from the spec: an instance of the collaborators that are missing from the
  sources. A \<^verbatim>\<open>UDAValue\<close> is updated by replacing what it holds; asking a reference for a
  number, or scaling it, fails; every value counts as defined.
\<close>

definition plain_externals :: "UDAValue externals" where
  "plain_externals =
     \<lparr> InjectorTypeFromString = InjectorType_of_string,
       WellInjectorCModeFromString = InjectorCMode_of_string,
       controlName = (\<lambda>c. ''UDA''),
       WellWELTARGCMode2String = (\<lambda>c. ''MODE''),
       uda_update = (\<lambda>u d. UDADouble d),
       uda_update_value = (\<lambda>u v. v),
       uda_get_double = (\<lambda>u. case u of UDADouble d \<Rightarrow> Inr d
                                | UDAString s \<Rightarrow> Inl (invalid_argument (s @ '' must be numeric''))),
       uda_is_double = (\<lambda>u. case u of UDADouble d \<Rightarrow> True | UDAString s \<Rightarrow> False),
       uda_get_string = (\<lambda>u. case u of UDADouble d \<Rightarrow> [] | UDAString s \<Rightarrow> s),
       uda_is_defined = (\<lambda>u. True),
       uda_times = (\<lambda>u f. case u of UDADouble d \<Rightarrow> Inr (UDADouble (d * f))
                              | UDAString s \<Rightarrow> Inl (logic_error (s @ '' can not be scaled''))) \<rparr>"

text \<open>
  A water injector \<^verbatim>\<open>WINJ1\<close> before any keyword has been handled: the values the
  constructor gives (no control active, prediction mode, control mode undefined), with
  every target and limit 0.
\<close>

definition water_injector :: "UDAValue WellInjectionProperties" where
  "water_injector =
     \<lparr> name = ''WINJ1'',
       surfaceInjectionRate = UDADouble 0,
       reservoirInjectionRate = UDADouble 0,
       BHPTarget = UDADouble 0,
       THPTarget = UDADouble 0,
       bhp_hist_limit = 0,
       thp_hist_limit = 0,
       BHPH = 0,
       THPH = 0,
       VFPTableNumber = 0,
       predictionMode = True,
       injectionControls = 0,
       injectorType = WATER,
       controlMode = CMODE_UNDEFINED,
       rsRvInj = 0,
       gas_inj_composition = None \<rparr>"

subsection \<open>Records of a deck\<close>

text \<open>Concrete inputs. An item that the deck leaves defaulted:\<close>

definition defaulted_item :: "UDAValue DeckItem" where
  "defaulted_item =
     \<lparr> defaultApplied = True, hasValue = True, getTrimmedString = [],
       getUDAValue = UDADouble 0, getInt = 0, getDouble = 0, getSIDouble = 0 \<rparr>"

text \<open>An item that holds the string \<open>s\<close>.\<close>

definition string_item :: "string \<Rightarrow> UDAValue DeckItem" where
  "string_item s = defaulted_item\<lparr>defaultApplied := False, getTrimmedString := s\<rparr>"

text \<open>An item that holds the number \<open>raw\<close>, which is \<open>si\<close> in SI units.\<close>

definition double_item :: "real \<Rightarrow> real \<Rightarrow> UDAValue DeckItem" where
  "double_item raw si =
     defaulted_item\<lparr>defaultApplied := False, getUDAValue := UDADouble raw,
                     getDouble := raw, getSIDouble := si\<rparr>"

text \<open>
  The first record of \<^verbatim>\<open>WCONINJE\<close> in the test deck
  \<^verbatim>\<open>UDQ_TEST_WCONPROD_IUAD-2.DATA\<close>: \<^verbatim>\<open>'WINJ1' 'WAT' 'OPEN' 'BHP' 1* 1200 3500 1* /\<close>.
\<close>

definition WCONINJE_WINJ1 :: "UDAValue DeckRecord" where
  "WCONINJE_WINJ1 item =
     (if item = ''TYPE'' then string_item ''WAT''
      else if item = ''CMODE'' then string_item ''BHP''
      else if item = ''RESV'' then double_item 1200 (1200 / 86400)
      else if item = ''BHP'' then double_item 3500 (3500 * 100000)
      else defaulted_item)"

text \<open>
  A record of \<^verbatim>\<open>WCONINJH\<close> for the same well, with an observed rate of 1500, an observed
  bottom hole pressure of 300 and the control mode \<^verbatim>\<open>THP\<close>.
\<close>

definition WCONINJH_WINJ1 :: "UDAValue DeckRecord" where
  "WCONINJH_WINJ1 item =
     (if item = ''TYPE'' then string_item ''WAT''
      else if item = ''RATE'' then double_item 1500 (1500 / 86400)
      else if item = ''BHP'' then double_item 300 (300 * 100000)
      else if item = ''CMODE'' then string_item ''THP''
      else defaulted_item\<lparr>hasValue := False\<rparr>)"

text \<open>The location of the keyword \<^verbatim>\<open>WCONINJE\<close> in the test deck.\<close>

definition deck_location :: KeywordLocation where
  "deck_location = \<lparr> filename = ''UDQ_TEST_WCONPROD_IUAD-2.DATA'', lineno = 453 \<rparr>"

text \<open>A tracker in which no control is registered.\<close>

definition no_active_udas :: UDQActive where
  "no_active_udas = Map.empty"

section \<open>The UDQ expression evaluator\<close>

text \<open>
  Modelled from the spec: of the UDQ engine only the declaration of the class
  \<^verbatim>\<open>UDQASTNode\<close> and the test deck with its \<^verbatim>\<open>DEFINE\<close> statements are among the sources. The
  Value Set (\<^verbatim>\<open>UDQSet\<close>), the Context, the functions applied by the nodes, the bodies of
  \<^verbatim>\<open>UDQASTNode::eval\<close> and its helpers, and the UDQ configuration are missing. This
  section follows the spec's sections 3, 4.1, 4.2, 6 and 9. A \<^verbatim>\<open>double\<close> is read as a real
  number. Division and power, whose behaviour at zero the spec leaves open, binary
  functions and the parser are left out; the expressions of the test deck are written as
  the trees that the grammar of section 4.1 gives them.
\<close>

subsection \<open>Value Sets\<close>

text \<open>
  Modelled from the spec: \<^verbatim>\<open>UDQVarType\<close> is declared in \<^verbatim>\<open>UDQEnums.hpp\<close>, which is missing;
  the entity kinds are those of section 3 (``well/group/field/segment/region/scalar''),
  and \<^verbatim>\<open>NONE\<close> is the initial value of \<^verbatim>\<open>var_type\<close> in the declaration of
  \<^verbatim>\<open>UDQASTNode\<close>.
\<close>

datatype UDQVarType = NONE | SCALAR | FIELD_VAR | REGION_VAR | SEGMENT_VAR | WELL_VAR | GROUP_VAR

text \<open>
  Modelled from the spec: \<^verbatim>\<open>UDQSet\<close> is missing. Section 3: ``a mapping from entity
  name/index to a double, plus a declared entity-kind [...] and a defined/undefined flag
  per entry''. The entries are kept in order; an undefined entry has the value \<open>None\<close>.
\<close>

record UDQSet =
  var_type :: UDQVarType
  entries :: "(string \<times> real option) list"

text \<open>
  Modelled from the spec: the scalar Set of section 4.2 (``a scalar Set broadcastable to
  any target type''), one entry without a name.
\<close>

definition scalar :: "real option \<Rightarrow> UDQSet" where
  "scalar v = \<lparr> var_type = SCALAR, entries = [([], v)] \<rparr>"

text \<open>
  Modelled from the spec: a ``fully defined'' Set of section 8, one in which every entry
  is defined.
\<close>

definition fully_defined :: "UDQSet \<Rightarrow> bool" where
  "fully_defined S = list_all (\<lambda>e. snd e \<noteq> None) (entries S)"

text \<open>
  Modelled from the spec: the errors of the evaluator are missing from the sources.
  Section 7 lists them: ``unknown keyword, wrong entity-kind for a reference, invalid
  argument to \<^verbatim>\<open>LOG\<close>, incompatible Set shapes in a binary op''; section 4.2 adds a
  selector that matches no entity.
\<close>

datatype udq_error =
    unknown_keyword string
  | empty_selection string
  | wrong_entity_kind string
  | domain_error string real
  | incompatible_shapes

subsection \<open>Functions and operators on Value Sets\<close>

text \<open>
  Modelled from the spec: the token types are declared in \<^verbatim>\<open>UDQEnums.hpp\<close>, which is
  missing. Section 4.1: ``functions are unary (\<^verbatim>\<open>LOG\<close>, \<^verbatim>\<open>SUM\<close>)''. The suffix keeps the names
  apart from those of the logic.
\<close>

datatype UDQUnaryFunction = LOG_fn | SUM_fn

text \<open>
  Modelled from the spec: the token types are declared in \<^verbatim>\<open>UDQEnums.hpp\<close>, which is
  missing. Section 4.1: the operators \<^verbatim>\<open>+\<close>, \<^verbatim>\<open>-\<close>, \<^verbatim>\<open>UADD\<close>, \<^verbatim>\<open>*\<close> and the comparison
  \<^verbatim>\<open>>\<close>.
\<close>

datatype UDQBinaryOperator = ADD | SUB | MUL | UADD | GT

text \<open>
  Modelled from the spec: the operators on single values are missing from the sources.
  Section 3: ``an undefined operand yields an undefined result for that entry''; section
  4.1: \<^verbatim>\<open>UADD\<close> is ``like \<^verbatim>\<open>+\<close> but treats an undefined operand as ignorable rather than
  poisoning the result''; a comparison gives ``a boolean-valued (0/1) Set''.
\<close>

fun entry_op :: "UDQBinaryOperator \<Rightarrow> real option \<Rightarrow> real option \<Rightarrow> real option" where
  "entry_op ADD (Some a) (Some b) = Some (a + b)"
| "entry_op SUB (Some a) (Some b) = Some (a - b)"
| "entry_op MUL (Some a) (Some b) = Some (a * b)"
| "entry_op GT (Some a) (Some b) = Some (if a > b then 1 else 0)"
| "entry_op UADD (Some a) (Some b) = Some (a + b)"
| "entry_op UADD (Some a) None = Some a"
| "entry_op UADD None (Some b) = Some b"
| "entry_op _ _ _ = None"

text \<open>
  Modelled from the spec: the arithmetic of \<^verbatim>\<open>UDQSet\<close> is missing from the sources.
  Section 3: ``arithmetic between two Sets of different entity-kinds is only legal when one
  side is a scalar (broadcast) or both sides share identical entity membership''.
\<close>

definition apply_binary :: "UDQBinaryOperator \<Rightarrow> UDQSet \<Rightarrow> UDQSet \<Rightarrow> udq_error + UDQSet" where
  "apply_binary f A B =
     (if var_type A = SCALAR then
        (case entries A of
           [(_, a)] \<Rightarrow> Inr (B\<lparr>entries := map (\<lambda>(n, b). (n, entry_op f a b)) (entries B)\<rparr>)
         | _ \<Rightarrow> Inl incompatible_shapes)
      else if var_type B = SCALAR then
        (case entries B of
           [(_, b)] \<Rightarrow> Inr (A\<lparr>entries := map (\<lambda>(n, a). (n, entry_op f a b)) (entries A)\<rparr>)
         | _ \<Rightarrow> Inl incompatible_shapes)
      else if map fst (entries A) = map fst (entries B) then
        Inr (A\<lparr>entries := map (\<lambda>((n, a), (_, b)). (n, entry_op f a b))
                              (zip (entries A) (entries B))\<rparr>)
      else Inl incompatible_shapes)"

text \<open>
  Modelled from the spec: the UDQ function \<^verbatim>\<open>LOG\<close> is missing from the sources. Section
  4.1: ``\<^verbatim>\<open>LOG(x)\<close> with \<^verbatim>\<open>x <= 0\<close> fails with a domain error rather than producing NaN
  silently''; section 4.2: the function is applied elementwise, ``propagating undefined
  entries''. The entries are taken in order, and the first defined entry that is not
  positive is the one reported. \<^verbatim>\<open>LOG\<close> is the logarithm to base 10.
\<close>

fun log_entries ::
  "(string \<times> real option) list \<Rightarrow> udq_error + (string \<times> real option) list" where
  "log_entries [] = Inr []"
| "log_entries ((n, None) # es) =
     (case log_entries es of Inl e \<Rightarrow> Inl e | Inr rs \<Rightarrow> Inr ((n, None) # rs))"
| "log_entries ((n, Some x) # es) =
     (if x \<le> 0 then Inl (domain_error ''LOG'' x)
      else (case log_entries es of
              Inl e \<Rightarrow> Inl e
            | Inr rs \<Rightarrow> Inr ((n, Some (log 10 x)) # rs)))"

text \<open>
  Modelled from the spec: the UDQ function \<^verbatim>\<open>SUM\<close> is missing from the sources. Section
  4.1: it ``aggregates a per-entity Set into a scalar by summing all defined entries,
  propagating `no entries' as zero''.
\<close>

fun sum_entries :: "(string \<times> real option) list \<Rightarrow> real" where
  "sum_entries [] = 0"
| "sum_entries ((n, None) # es) = sum_entries es"
| "sum_entries ((n, Some x) # es) = x + sum_entries es"

text \<open>
  Modelled from the spec: the application of a function to a Set, elementwise for \<^verbatim>\<open>LOG\<close>
  and as an aggregate for \<^verbatim>\<open>SUM\<close> (section 4.2).
\<close>

fun apply_unary :: "UDQUnaryFunction \<Rightarrow> UDQSet \<Rightarrow> udq_error + UDQSet" where
  "apply_unary LOG_fn S =
     (case log_entries (entries S) of
        Inl e \<Rightarrow> Inl e
      | Inr rs \<Rightarrow> Inr (S\<lparr>entries := rs\<rparr>))"
| "apply_unary SUM_fn S = Inr (scalar (Some (sum_entries (entries S))))"

subsection \<open>Context and AST nodes\<close>

text \<open>
  Modelled from the spec: \<^verbatim>\<open>UDQContext\<close> is missing from the sources. Section 3: ``lookup of
  current values for any summary-vector keyword [...], lookup of auxiliary region/aquifer
  tables''. A keyword or a table that the Context does not know gives \<open>None\<close>.
\<close>

record UDQContext =
  summary_vector :: "string \<Rightarrow> UDQSet option"
  table_lookup :: "string \<Rightarrow> string list \<Rightarrow> UDQSet option"

text \<open>
  Modelled from the spec: the declaration of \<^verbatim>\<open>UDQASTNode\<close> is among the sources (a token
  type, a \<^verbatim>\<open>variant<string, double>\<close> value, a \<^verbatim>\<open>sign\<close>, a \<^verbatim>\<open>selector\<close>, and the children
  \<^verbatim>\<open>left\<close> and \<^verbatim>\<open>right\<close>), the token types are not. The nodes are the kinds of section 3,
  as the closed set of variants that section 9 describes; each carries the sign
  multiplier, which a number has folded into its value.
\<close>

datatype UDQASTNode =
    Number real
  | Reference real string "string list"
  | UnaryFunction real UDQUnaryFunction UDQASTNode
  | BinaryOperator real UDQBinaryOperator UDQASTNode UDQASTNode
  | TableLookup real string "string list"

text \<open>
  Modelled from the spec: the sign multiplier of a node applied to the Set it evaluates
  to; an undefined entry stays undefined.
\<close>

definition scale :: "real \<Rightarrow> UDQSet \<Rightarrow> UDQSet" where
  "scale sign_factor S =
     S\<lparr>entries := map (\<lambda>(n, v). (n, map_option (\<lambda>x. sign_factor * x) v)) (entries S)\<rparr>"

text \<open>
  Modelled from the spec: the body of \<^verbatim>\<open>UDQASTNode::eval\<close> is missing from the sources.
  Section 4.2, by node kind: a number gives a scalar Set; a reference is resolved through
  the Context and, with a selector, narrowed to the entities it names; a function node
  evaluates its child and applies the function; an operator node evaluates both children
  for the same target type and applies the operator; a table lookup is resolved through
  the Context. A node fails ``when a referenced keyword is unknown to Context, a selector
  matches zero entities where at least one is required, a domain error occurs in a
  function'', or the shapes do not fit, and the failure of a child is the failure of its
  parent. The spec leaves the aggregation of a reference of one kind for a target of
  another kind to a mapping that it does not give: here a reference gives the Set of its
  own kind, and the target type is handed down to the children unchanged.
\<close>

fun eval :: "UDQVarType \<Rightarrow> UDQContext \<Rightarrow> UDQASTNode \<Rightarrow> udq_error + UDQSet" where
  "eval eval_target context (Number x) = Inr (scalar (Some x))"
| "eval eval_target context (Reference sign_factor keyword selector) =
     (case summary_vector context keyword of
        None \<Rightarrow> Inl (unknown_keyword keyword)
      | Some S \<Rightarrow>
         if selector = [] then Inr (scale sign_factor S)
         else (let es = filter (\<lambda>e. fst e \<in> set selector) (entries S)
               in if es = [] then Inl (empty_selection keyword)
                  else Inr (scale sign_factor (S\<lparr>entries := es\<rparr>))))"
| "eval eval_target context (UnaryFunction sign_factor f left) =
     (case eval eval_target context left of
        Inl e \<Rightarrow> Inl e
      | Inr L \<Rightarrow> (case apply_unary f L of Inl e \<Rightarrow> Inl e | Inr S \<Rightarrow> Inr (scale sign_factor S)))"
| "eval eval_target context (BinaryOperator sign_factor f left right) =
     (case eval eval_target context left of
        Inl e \<Rightarrow> Inl e
      | Inr L \<Rightarrow>
         (case eval eval_target context right of
            Inl e \<Rightarrow> Inl e
          | Inr R \<Rightarrow> (case apply_binary f L R of Inl e \<Rightarrow> Inl e | Inr S \<Rightarrow> Inr (scale sign_factor S))))"
| "eval eval_target context (TableLookup sign_factor keyword selector) =
     (case table_lookup context keyword selector of
        None \<Rightarrow> Inl (unknown_keyword keyword)
      | Some S \<Rightarrow> Inr (scale sign_factor S))"

subsection \<open>The UDQ configuration\<close>

text \<open>
  Modelled from the spec: the statements of section 6, \<^verbatim>\<open>DEFINE <NAME> <expr>\<close>,
  \<^verbatim>\<open>ASSIGN <NAME> <literal>\<close> and \<^verbatim>\<open>UNITS <NAME> <unit-string>\<close>, the expression being given
  as its tree.
\<close>

datatype UDQStatement =
    DEFINE string UDQASTNode
  | ASSIGN string real
  | UNITS string string

text \<open>
  Modelled from the spec: what the configuration holds for a name, the expression of a
  \<^verbatim>\<open>DEFINE\<close> or the constant of an \<^verbatim>\<open>ASSIGN\<close>.
\<close>

datatype UDQInput = Defined UDQASTNode | Assigned real

text \<open>
  Modelled from the spec: the UDQ configuration is missing from the sources. Section 9:
  ``an ordered map keyed by name'', here the list of the names with what they are bound
  to, in the order of their first declaration.
\<close>

type_synonym UDQConfig = "(string \<times> UDQInput) list"

text \<open>
  Modelled from the spec: section 9, ``later \<^verbatim>\<open>DEFINE\<close>/\<^verbatim>\<open>ASSIGN\<close> for the same name silently
  replaces the earlier one inside an ordered configuration structure'', with the
  ``original declaration order preserved''. A name that is bound already keeps its place
  and takes the new binding; a new name goes to the end.
\<close>

fun put :: "string \<Rightarrow> UDQInput \<Rightarrow> UDQConfig \<Rightarrow> UDQConfig" where
  "put k v [] = [(k, v)]"
| "put k v ((k', v') # kvs) = (if k' = k then (k, v) # kvs else (k', v') # put k v kvs)"

text \<open>
  Modelled from the spec: the effect of one statement on the configuration. A \<^verbatim>\<open>DEFINE\<close> and
  an \<^verbatim>\<open>ASSIGN\<close> bind the name; the unit of a quantity has no part in its evaluation.
\<close>

fun add_statement :: "UDQConfig \<Rightarrow> UDQStatement \<Rightarrow> UDQConfig" where
  "add_statement config (DEFINE udq_name e) = put udq_name (Defined e) config"
| "add_statement config (ASSIGN udq_name x) = put udq_name (Assigned x) config"
| "add_statement config (UNITS udq_name u) = config"

text \<open>
  Modelled from the spec: the configuration of a \<^verbatim>\<open>UDQ\<close> section, its statements taken in
  the order of the deck.
\<close>

definition load_statements :: "UDQStatement list \<Rightarrow> UDQConfig" where
  "load_statements statements = foldl add_statement [] statements"

text \<open>
  Modelled from the spec: section 6, ``\<^verbatim>\<open><NAME>\<close> prefix encodes target entity-kind:
  \<^verbatim>\<open>W\<close>=well, \<^verbatim>\<open>G\<close>=group, \<^verbatim>\<open>F\<close>=field, \<^verbatim>\<open>R\<close>=region-level variants''.
\<close>

definition target_type :: "string \<Rightarrow> UDQVarType" where
  "target_type udq_name =
     (case udq_name of
        [] \<Rightarrow> NONE
      | c # _ \<Rightarrow>
         if c = CHR ''W'' then WELL_VAR
         else if c = CHR ''G'' then GROUP_VAR
         else if c = CHR ''F'' then FIELD_VAR
         else if c = CHR ''R'' then REGION_VAR
         else NONE)"

text \<open>
  Modelled from the spec: the value of a Set for one entity. A scalar is broadcast to
  every entity; an entity that the Set does not hold has no value.
\<close>

definition value_at :: "UDQSet \<Rightarrow> string \<Rightarrow> real option" where
  "value_at S entity =
     (if var_type S = SCALAR
      then (case entries S of [(_, v)] \<Rightarrow> v | _ \<Rightarrow> None)
      else (case map_of (entries S) entity of None \<Rightarrow> None | Some v \<Rightarrow> v))"

text \<open>
  Modelled from the spec: the value of a quantity of the configuration for one entity.
  Section 8: an assigned quantity is ``a constant [...] for every well, ignoring the
  formula''; a defined quantity is its expression evaluated for the target kind of its
  name; a name that the configuration does not hold is an unknown keyword.
\<close>

definition eval_udq ::
  "UDQConfig \<Rightarrow> UDQContext \<Rightarrow> string \<Rightarrow> string \<Rightarrow> udq_error + real option" where
  "eval_udq config context udq_name entity =
     (case map_of config udq_name of
        None \<Rightarrow> Inl (unknown_keyword udq_name)
      | Some (Assigned x) \<Rightarrow> Inr (Some x)
      | Some (Defined e) \<Rightarrow>
         (case eval (target_type udq_name) context e of
            Inl err \<Rightarrow> Inl err
          | Inr S \<Rightarrow> Inr (value_at S entity)))"

subsection \<open>The UDQ section of the test deck\<close>

text \<open>
  The first eight statements of the \<^verbatim>\<open>UDQ\<close> section of
  \<^verbatim>\<open>UDQ_TEST_WCONPROD_IUAD-2.DATA\<close>, in the order of the deck; \<^verbatim>\<open>WUOPRL\<close> is defined by the
  first and again by the last of them.
\<close>

definition deck_udq_statements :: "UDQStatement list" where
  "deck_udq_statements =
     [DEFINE ''WUOPRL''
        (BinaryOperator 1 MUL
           (BinaryOperator 1 SUB (Reference 1 ''WOPR'' [''PROD1'']) (Number 150)) (Number 0.90)),
      DEFINE ''WULPRL''
        (BinaryOperator 1 MUL
           (BinaryOperator 1 SUB (Reference 1 ''WLPR'' [''PROD1'']) (Number 200)) (Number 0.90)),
      DEFINE ''WUOPRU''
        (BinaryOperator 1 MUL
           (BinaryOperator 1 SUB (Reference 1 ''WOPR'' [''PROD2'']) (Number 250)) (Number 0.80)),
      DEFINE ''GUOPRU''
        (BinaryOperator 1 MUL
           (BinaryOperator 1 SUB (Reference 1 ''GOPR'' [''GRP1'']) (Number 449)) (Number 0.77)),
      DEFINE ''WULPRU''
        (BinaryOperator 1 MUL
           (BinaryOperator 1 SUB (Reference 1 ''WLPR'' [''PROD2'']) (Number 300)) (Number 0.80)),
      ASSIGN ''WULPRL'' 400,
      DEFINE ''FULPR''
        (BinaryOperator 1 MUL
           (BinaryOperator 1 SUB (Reference 1 ''FLPR'' []) (Number 543)) (Number 0.65)),
      DEFINE ''WUOPRL''
        (BinaryOperator 1 MUL
           (BinaryOperator 1 SUB (Reference 1 ''WOPR'' [''PROD1'']) (Number 170)) (Number 0.60))]"

text \<open>A Context in which the oil production rate of \<^verbatim>\<open>PROD1\<close> is \<open>x\<close>.\<close>

definition context_WOPR :: "real \<Rightarrow> UDQContext" where
  "context_WOPR x =
     \<lparr> summary_vector =
         (\<lambda>keyword.
            if keyword = ''WOPR''
            then Some \<lparr> var_type = WELL_VAR,
                        entries = [(''PROD1'', Some x), (''PROD2'', Some 200)] \<rparr>
            else if keyword = ''FLPR''
            then Some \<lparr> var_type = FIELD_VAR, entries = [(''FIELD'', Some 1000)] \<rparr>
            else None),
       table_lookup = (\<lambda>keyword selector. None) \<rparr>"

section \<open>Results on EclUtil\<close>

lemma sint_shift15: "sint (push_bit 15 1 :: int32) = 32768"
  by simp

lemma sint_combine:
  fixes n1 n2 :: int32
  assumes "0 \<le> sint n1" "sint n1 < 2 ^ 15" "- 10 \<le> sint n2"
    and "sint n1 + 2 ^ 15 * (sint n2 + 10) < 2 ^ 31"
  shows "sint (combineSummaryNumbers n1 n2) = sint n1 + 32768 * (sint n2 + 10)"
proof -
  let ?k = "sint n1 + 32768 * (sint n2 + 10)"
  have e: "combineSummaryNumbers n1 n2 = word_of_int ?k"
    by (simp add: combineSummaryNumbers_def)
  have lo: "- (2 ^ 31) \<le> ?k" using assms by simp
  have hi: "?k < 2 ^ 31" using assms by simp
  have "sint (word_of_int ?k :: int32) = signed_take_bit 31 ?k"
    by (simp only: sint_sbintrunc') simp
  also have "\<dots> = ?k"
    using lo hi by (rule signed_take_bit_int_eq_self)
  finally show ?thesis by (simp only: e)
qed

text \<open>
  Claim C8. For 32-bit integers \<open>n1\<close>, \<open>n2\<close> with \<open>0 \<le> n1 < 2^15\<close>, \<open>n2 \<ge> -10\<close> and
  \<open>n1 + 2^15 * (n2 + 10)\<close> representable as a signed 32-bit integer, splitting the
  combined summary number gives back exactly the pair \<open>(n1, n2)\<close>.
\<close>

theorem split_combine_summary_number:
  fixes n1 n2 :: int32
  assumes "0 \<le> sint n1" "sint n1 < 2 ^ 15" "- 10 \<le> sint n2"
    and "sint n1 + 2 ^ 15 * (sint n2 + 10) < 2 ^ 31"
  shows "splitSummaryNumber (combineSummaryNumbers n1 n2) = (n1, n2)"
proof -
  let ?a = "sint n1" and ?b = "sint n2"
  have s: "sint (combineSummaryNumbers n1 n2) = ?a + 32768 * (?b + 10)"
    using assms by (rule sint_combine)
  have nn: "0 \<le> ?a + 32768 * (?b + 10)" using assms by simp
  have m: "(?a + 32768 * (?b + 10)) smod 32768 = ?a"
  proof -
    have "(?a + 32768 * (?b + 10)) smod 32768 = (?a + 32768 * (?b + 10)) mod 32768"
      using nn by (simp add: signed_modulo_int_def sgn_if)
    also have "\<dots> = ?a mod 32768" by (simp only: mod_mult_self2)
    also have "\<dots> = ?a" using assms by simp
    finally show ?thesis .
  qed
  have d: "(?a + 32768 * (?b + 10)) sdiv 32768 = ?b + 10"
  proof -
    have "(?a + 32768 * (?b + 10)) sdiv 32768 = (?a + 32768 * (?b + 10)) div 32768"
      using nn by (simp add: signed_divide_int_def sgn_if)
    also have "\<dots> = ?a div 32768 + (?b + 10)" by simp
    also have "\<dots> = ?b + 10" using assms by simp
    finally show ?thesis .
  qed
  have c1: "c_mod (combineSummaryNumbers n1 n2) (push_bit 15 1) = n1"
    by (simp only: c_mod_def s sint_shift15 m) simp
  have c2: "c_div (combineSummaryNumbers n1 n2) (push_bit 15 1) = n2 + 10"
    by (simp only: c_div_def s sint_shift15 d) simp
  show ?thesis
    by (simp only: splitSummaryNumber_def Let_def c1 c2) simp
qed

theorem split_combine_summary_number_witness:
  "0 \<le> sint (5 :: int32) \<and> sint (5 :: int32) < 2 ^ 15 \<and> - 10 \<le> sint (- 10 :: int32)
   \<and> sint (5 :: int32) + 2 ^ 15 * (sint (- 10 :: int32) + 10) < 2 ^ 31
   \<and> splitSummaryNumber (combineSummaryNumbers 5 (- 10)) = (5, - 10)"
  using split_combine_summary_number [of 5 "- 10"] by simp

lemma digit_range:
  "(48 \<le> n \<and> n \<le> 57) \<longleftrightarrow> n \<in> {48, 49, 50, 51, 52, 53, 54, 55, 56, 57}" for n :: nat
  by (simp, arith)

lemma isdigit_iff: "isdigit c \<longleftrightarrow> c \<in> set ''0123456789''"
proof -
  have "isdigit c \<longleftrightarrow> (of_char c :: nat) \<in> of_char ` set ''0123456789''"
    by (simp add: isdigit_def digit_range)
  also have "\<dots> \<longleftrightarrow> c \<in> set ''0123456789''"
    by (rule inj_image_mem_iff) (rule inj_onI, simp)
  finally show ?thesis .
qed

lemma is_number_iff: "is_number s \<longleftrightarrow> (\<forall>c \<in> set s. c \<in> set ''0123456789'')"
  by (simp only: is_number_def list_all_iff isdigit_iff)

lemma not_digit: "c \<in> set ''+-.eEdD'' \<Longrightarrow> c \<notin> set ''0123456789''"
  by auto

text \<open>
  Claim C10. \<open>is_number s\<close> holds exactly when every character of \<open>s\<close> is one of the ten
  decimal digits; it holds for the empty string, and fails for every string that contains
  a sign, a decimal point or an exponent character.
\<close>

theorem is_number_all_digits:
  "(is_number s \<longleftrightarrow> (\<forall>c \<in> set s. c \<in> set ''0123456789''))
   \<and> is_number ''''
   \<and> (\<forall>c \<in> set ''+-.eEdD''. c \<in> set s \<longrightarrow> \<not> is_number s)"
proof (intro conjI ballI impI)
  show "is_number s \<longleftrightarrow> (\<forall>c \<in> set s. c \<in> set ''0123456789'')"
    by (rule is_number_iff)
  show "is_number ''''"
    by (simp add: is_number_def)
  fix c assume "c \<in> set ''+-.eEdD''" and "c \<in> set s"
  then have "\<exists>c \<in> set s. c \<notin> set ''0123456789''"
    using not_digit by blast
  then show "\<not> is_number s"
    by (simp only: is_number_iff) blast
qed

theorem is_number_all_digits_witness:
  "is_number ''2024'' \<and> is_number '''' \<and> \<not> is_number ''-12'' \<and> \<not> is_number ''1.5E+3''"
  using is_number_all_digits [of "''2024''"] is_number_all_digits [of "''-12''"]
    is_number_all_digits [of "''1.5E+3''"]
  by simp

section \<open>Results on the well injection properties\<close>

subsection \<open>Active controls\<close>

lemma InjectorCMode_int_power: "\<exists>n. InjectorCMode_int c = 2 ^ n"
proof (cases c)
  case RATE then show ?thesis by (intro exI [of _ 0]) simp
next
  case RESV then show ?thesis by (intro exI [of _ 1]) simp
next
  case BHP then show ?thesis by (intro exI [of _ 2]) simp
next
  case THP then show ?thesis by (intro exI [of _ 3]) simp
next
  case GRUP then show ?thesis by (intro exI [of _ 4]) simp
next
  case CMODE_UNDEFINED then show ?thesis by (intro exI [of _ 9]) simp
qed

lemma InjectorCMode_int_inject: "InjectorCMode_int c = InjectorCMode_int d \<Longrightarrow> c = d"
  by (cases c; cases d) simp_all

lemma mask_add_int:
  fixes s :: int
  shows "(if s AND 2 ^ n = 0 then s + 2 ^ n else s) = set_bit n s"
  by (simp add: set_bit_eq and_exp_eq_0_iff_not_bit)

lemma mask_drop_int:
  fixes s :: int
  shows "(if s AND 2 ^ n \<noteq> 0 then s - 2 ^ n else s) = unset_bit n s"
  by (simp add: unset_bit_eq and_exp_eq_0_iff_not_bit)

lemma mask_drop_int':
  fixes s :: int
  shows "(if bit s n then s - 2 ^ n else s) = unset_bit n s"
  by (simp add: unset_bit_eq)

lemma mask_has_int:
  fixes s :: int
  shows "s AND 2 ^ n \<noteq> 0 \<longleftrightarrow> bit s n"
  by (simp add: and_exp_eq_0_iff_not_bit)

lemma has_iff:
  "hasInjectionControl c w \<longleftrightarrow> injectionControls w AND InjectorCMode_int c \<noteq> 0"
  by (simp add: hasInjectionControl_def)

lemma injectionControls_add:
  "injectionControls (addInjectionControl c w) =
     (if injectionControls w AND InjectorCMode_int c = 0
      then injectionControls w + InjectorCMode_int c else injectionControls w)"
  by (simp add: addInjectionControl_def Let_def)

lemma injectionControls_drop:
  "injectionControls (dropInjectionControl c w) =
     (if injectionControls w AND InjectorCMode_int c \<noteq> 0
      then injectionControls w - InjectorCMode_int c else injectionControls w)"
  by (simp add: dropInjectionControl_def Let_def)

lemma has_add_same: "hasInjectionControl c (addInjectionControl c w)"
proof -
  obtain n where n: "InjectorCMode_int c = 2 ^ n"
    using InjectorCMode_int_power by blast
  have "bit (set_bit n (injectionControls w)) n"
    by (simp add: bit_set_bit_iff)
  then show ?thesis
    by (simp only: has_iff injectionControls_add n mask_add_int mask_has_int)
qed

lemma has_add_other:
  assumes "hasInjectionControl d w"
  shows "hasInjectionControl d (addInjectionControl c w)"
proof -
  obtain n where n: "InjectorCMode_int c = 2 ^ n"
    using InjectorCMode_int_power by blast
  obtain m where m: "InjectorCMode_int d = 2 ^ m"
    using InjectorCMode_int_power by blast
  from assms have "bit (injectionControls w) m"
    by (simp only: has_iff m mask_has_int)
  then have "bit (set_bit n (injectionControls w)) m"
    by (simp add: bit_set_bit_iff)
  then show ?thesis
    by (simp only: has_iff injectionControls_add n m mask_add_int mask_has_int)
qed

lemma has_drop_other:
  assumes "hasInjectionControl d w" and "c \<noteq> d"
  shows "hasInjectionControl d (dropInjectionControl c w)"
proof -
  obtain n where n: "InjectorCMode_int c = 2 ^ n"
    using InjectorCMode_int_power by blast
  obtain m where m: "InjectorCMode_int d = 2 ^ m"
    using InjectorCMode_int_power by blast
  have "n \<noteq> m"
    using assms(2) InjectorCMode_int_inject [of c d] by (auto simp: n m)
  moreover from assms have "bit (injectionControls w) m"
    by (simp only: has_iff m mask_has_int)
  ultimately have "bit (unset_bit n (injectionControls w)) m"
    by (simp add: bit_unset_bit_iff)
  then show ?thesis
    by (simp only: has_iff injectionControls_drop n m mask_has_int mask_drop_int')
qed

lemma has_field_update [simp]:
  "hasInjectionControl c (w\<lparr>controlMode := m\<rparr>) = hasInjectionControl c w"
  "hasInjectionControl c (w\<lparr>rsRvInj := r\<rparr>) = hasInjectionControl c w"
  "hasInjectionControl c (w\<lparr>predictionMode := p\<rparr>) = hasInjectionControl c w"
  "hasInjectionControl c (w\<lparr>VFPTableNumber := v\<rparr>) = hasInjectionControl c w"
  by (simp_all add: hasInjectionControl_def)

lemma Let_elim: "Let a f = r \<Longrightarrow> (\<And>x. x = a \<Longrightarrow> f x = r \<Longrightarrow> C) \<Longrightarrow> C"
  by simp

lemma if_elim:
  "(if c then a else b) = r \<Longrightarrow> (c \<Longrightarrow> a = r \<Longrightarrow> C) \<Longrightarrow> (\<not> c \<Longrightarrow> b = r \<Longrightarrow> C) \<Longrightarrow> C"
  by (cases c) simp_all

lemma case_sum_elim:
  "(case s of Inl e \<Rightarrow> Inl e | Inr y \<Rightarrow> g y) = Inr r \<Longrightarrow> (\<And>y. s = Inr y \<Longrightarrow> g y = Inr r \<Longrightarrow> C) \<Longrightarrow> C"
  by (cases s) simp_all

lemma Inr_elim: "Inr a = Inr r \<Longrightarrow> (r = a \<Longrightarrow> C) \<Longrightarrow> C"
  by simp

lemma Inr_pair_elim: "Inr (a, l) = Inr (r, m) \<Longrightarrow> (r = a \<Longrightarrow> m = l \<Longrightarrow> C) \<Longrightarrow> C"
  by simp

lemma WCONINJE_controls:
  assumes "handleWCONINJE X record bhp_def availableForGroupControl well_name location w = Inr w'"
  shows "hasInjectionControl BHP w' \<and> hasInjectionControl (controlMode w') w'"
  using assms unfolding handleWCONINJE_def
  apply (elim Let_elim if_elim case_sum_elim Inr_elim)
  apply (simp_all add: has_add_same has_add_other has_drop_other)
  done

lemma WCONINJH_controls:
  assumes "handleWCONINJH X record vfp_table_nr bhp_def is_producer well_name loc w = Inr (w', msgs)"
  shows "hasInjectionControl BHP w' \<and> hasInjectionControl (controlMode w') w'"
  using assms unfolding handleWCONINJH_def
  apply (elim Let_elim if_elim case_sum_elim Inr_pair_elim)
  apply (simp_all add: has_add_same has_add_other has_drop_other)
  done

subsection \<open>Rate targets of another fluid\<close>

text \<open>
  Claim C1, as the code has it. When the oil, water or gas surface rate is the target and
  the injector's declared type is another fluid, \<^verbatim>\<open>handleWELTARG\<close> fails with an
  \<^verbatim>\<open>invalid_argument\<close> whose fixed message names the required well type, and
  \<^verbatim>\<open>handleWTMULT\<close> fails with an \<^verbatim>\<open>invalid_argument\<close> too; neither message depends on the
  name of the well. \<^verbatim>\<open>update_uda\<close> with the matching \<^verbatim>\<open>WELTARG\<close> control does not fail: it
  returns with the properties and the Active-UDA tracker unchanged.
\<close>

theorem rate_target_of_other_fluid:
  assumes "(cmode, ty, control, msg) \<in>
             {(ORAT, OIL, WELTARG_ORAT, ''Well type must be OIL to set the oil rate''),
              (WRAT, WATER, WELTARG_WRAT, ''Well type must be WATER to set the water rate''),
              (GRAT, GAS, WELTARG_GRAT, ''Well type must be GAS to set the gas rate'')}"
    and "injectorType w \<noteq> ty"
  shows "(\<forall>n. handleWELTARG X cmode new_arg SiFactorP (w\<lparr>name := n\<rparr>) = Inl (invalid_argument msg))
       \<and> (\<exists>m. \<forall>n. handleWTMULT X cmode factor (w\<lparr>name := n\<rparr>) = Inl (invalid_argument m))
       \<and> update_uda X udq_config control val w udq_active = Inr (w, udq_active)"
proof (intro conjI)
  show "\<forall>n. handleWELTARG X cmode new_arg SiFactorP (w\<lparr>name := n\<rparr>) = Inl (invalid_argument msg)"
    using assms by (auto simp: handleWELTARG_def)
  show "\<exists>m. \<forall>n. handleWTMULT X cmode factor (w\<lparr>name := n\<rparr>) = Inl (invalid_argument m)"
    using assms by (auto simp: handleWTMULT_def)
  show "update_uda X udq_config control val w udq_active = Inr (w, udq_active)"
    using assms by (auto simp: update_uda_def)
qed

theorem rate_target_of_other_fluid_witness:
  "handleWELTARG plain_externals ORAT (UDADouble 100) 1 water_injector
     = Inl (invalid_argument ''Well type must be OIL to set the oil rate'')
   \<and> isl (handleWTMULT plain_externals ORAT 2 water_injector)
   \<and> update_uda plain_externals () WELTARG_ORAT (UDAString ''WUINJ'') water_injector no_active_udas
       = Inr (water_injector, no_active_udas)"
proof -
  have t: "injectorType water_injector \<noteq> OIL"
    by (simp add: water_injector_def)
  have n: "water_injector\<lparr>name := name water_injector\<rparr> = water_injector"
    by simp
  have m: "(ORAT, OIL, WELTARG_ORAT, ''Well type must be OIL to set the oil rate'') \<in>
             {(ORAT, OIL, WELTARG_ORAT, ''Well type must be OIL to set the oil rate''),
              (WRAT, WATER, WELTARG_WRAT, ''Well type must be WATER to set the water rate''),
              (GRAT, GAS, WELTARG_GRAT, ''Well type must be GAS to set the gas rate'')}"
    by simp
  note r = rate_target_of_other_fluid [OF m t, of plain_externals "UDADouble 100" 1 2 "()"
      "UDAString ''WUINJ''" no_active_udas]
  from r have "handleWELTARG plain_externals ORAT (UDADouble 100) 1
                 (water_injector\<lparr>name := name water_injector\<rparr>)
               = Inl (invalid_argument ''Well type must be OIL to set the oil rate'')"
    by blast
  moreover from r obtain e where
    "handleWTMULT plain_externals ORAT 2 (water_injector\<lparr>name := name water_injector\<rparr>)
       = Inl (invalid_argument e)"
    by blast
  ultimately show ?thesis using r by (simp only: n) simp
qed

text \<open>
  Claim C1 as stated asks every such attempt to fail with a message that includes the well
  name. On the water injector \<^verbatim>\<open>WINJ1\<close> the UDA update of the oil rate returns normally,
  and the messages of \<^verbatim>\<open>handleWELTARG\<close> and \<^verbatim>\<open>handleWTMULT\<close> do not contain
  \<^verbatim>\<open>WINJ1\<close>.
\<close>

theorem rate_target_of_other_fluid_counterexample:
  "update_uda plain_externals () WELTARG_ORAT (UDAString ''WUINJ'') water_injector no_active_udas
     = Inr (water_injector, no_active_udas)
   \<and> handleWELTARG plain_externals ORAT (UDADouble 100) 1 water_injector
     = Inl (invalid_argument ''Well type must be OIL to set the oil rate'')
   \<and> handleWTMULT plain_externals ORAT 2 water_injector
     = Inl (invalid_argument ''Well type must be OIL to scale the oil rate'')
   \<and> name water_injector = ''WINJ1''"
  by (simp add: update_uda_def handleWELTARG_def handleWTMULT_def water_injector_def)

lemmas fixture_defs =
  plain_externals_def water_injector_def WCONINJE_WINJ1_def WCONINJH_WINJ1_def
  deck_location_def defaulted_item_def string_item_def double_item_def
  InjectorType_of_string_def InjectorCMode_of_string_def
  hasInjectionControl_def addInjectionControl_def dropInjectionControl_def

lemma WCONINJE_WINJ1_result:
  "handleWCONINJE plain_externals WCONINJE_WINJ1 1000 True ''WINJ1'' deck_location water_injector
   = Inr \<lparr>name = ''WINJ1'', surfaceInjectionRate = UDADouble 0,
        reservoirInjectionRate = UDADouble 1200, BHPTarget = UDADouble 3500,
        THPTarget = UDADouble 0, bhp_hist_limit = 0, thp_hist_limit = 0,
        BHPH = 0, THPH = 0, VFPTableNumber = 0, predictionMode = True,
        injectionControls = 22, injectorType = WATER, controlMode = BHP,
        rsRvInj = 0, gas_inj_composition = None\<rparr>"
  by (simp add: handleWCONINJE_def fixture_defs Let_def)

lemma WCONINJH_WINJ1_result:
  "handleWCONINJH plain_externals WCONINJH_WINJ1 0 1000 False ''WINJ1'' deck_location water_injector
   = Inr (\<lparr>name = ''WINJ1'', surfaceInjectionRate = UDADouble 1500,
         reservoirInjectionRate = UDADouble 0, BHPTarget = UDADouble 0,
         THPTarget = UDADouble 0, bhp_hist_limit = 1000, thp_hist_limit = 0,
         BHPH = 30000000, THPH = 0, VFPTableNumber = 0,
         predictionMode = False, injectionControls = 5,
         injectorType = WATER, controlMode = RATE, rsRvInj = 0,
         gas_inj_composition = None\<rparr>,
      [WCONINJH_reset_to_RATE ''UDQ_TEST_WCONPROD_IUAD-2.DATA'' 453
        ''WINJ1'' THP (UDADouble 1500)])"
  by (simp add: handleWCONINJH_def fixture_defs Let_def)

lemma case_sum_elim':
  "(case s of Inl e \<Rightarrow> Inl e | Inr y \<Rightarrow> g y) = r
   \<Longrightarrow> (\<And>e. s = Inl e \<Longrightarrow> r = Inl e \<Longrightarrow> C) \<Longrightarrow> (\<And>y. s = Inr y \<Longrightarrow> g y = r \<Longrightarrow> C) \<Longrightarrow> C"
  by (cases s) auto

lemma Inr_flip: "Inr a = r \<Longrightarrow> (r = Inr a \<Longrightarrow> C) \<Longrightarrow> C"
  by auto

lemma Inl_flip: "Inl a = r \<Longrightarrow> (r = Inl a \<Longrightarrow> C) \<Longrightarrow> C"
  by auto

lemma add_drop_fields [simp]:
  "surfaceInjectionRate (addInjectionControl c w) = surfaceInjectionRate w"
  "surfaceInjectionRate (dropInjectionControl c w) = surfaceInjectionRate w"
  "injectorType (addInjectionControl c w) = injectorType w"
  "injectorType (dropInjectionControl c w) = injectorType w"
  "controlMode (addInjectionControl c w) = controlMode w"
  "controlMode (dropInjectionControl c w) = controlMode w"
  by (simp_all add: addInjectionControl_def dropInjectionControl_def Let_def)

lemma WCONINJH_unsupported:
  assumes "\<not> defaultApplied (record ''TYPE'')"
    and "InjectorTypeFromString X (getTrimmedString (record ''TYPE'')) = Inr ty"
    and "WellInjectorCModeFromString X (getTrimmedString (record ''CMODE'')) = Inr m"
    and "m \<noteq> RATE" and "m \<noteq> BHP"
    and "handleWCONINJH X record vfp_table_nr bhp_def is_producer well_name loc w = r"
  shows "\<exists>w'. r = Inr (w', [WCONINJH_reset_to_RATE (filename loc) (lineno loc) well_name m
                                (surfaceInjectionRate w')])
              \<and> controlMode w' = RATE \<and> hasInjectionControl RATE w'"
  using assms(6) assms(1-5) unfolding handleWCONINJH_def
  apply (elim Let_elim if_elim case_sum_elim' Inr_flip Inl_flip)
  apply (simp_all add: has_add_same has_add_other)
  done

text \<open>
  Claim C2, as the code has it. A \<^verbatim>\<open>WCONINJH\<close> record whose injector type is defaulted fails.
  A record with a type and a control mode that the conversions accept, the mode being
  neither \<^verbatim>\<open>RATE\<close> nor \<^verbatim>\<open>BHP\<close>, does not fail: the handler logs one warning with the
  file, the line, the well, the selected control and the surface rate target, and returns
  with the control mode reset to \<^verbatim>\<open>RATE\<close>, an active control.
\<close>

theorem WCONINJH_unsupported_control_reset:
  "(defaultApplied (record ''TYPE'') \<longrightarrow>
      handleWCONINJH X record vfp_table_nr bhp_def is_producer well_name loc w
        = Inl (invalid_argument ''Injection type can not be defaulted for keyword WCONINJH''))
   \<and> (\<not> defaultApplied (record ''TYPE'')
        \<and> InjectorTypeFromString X (getTrimmedString (record ''TYPE'')) = Inr ty
        \<and> WellInjectorCModeFromString X (getTrimmedString (record ''CMODE'')) = Inr m
        \<and> m \<noteq> RATE \<and> m \<noteq> BHP \<longrightarrow>
      (\<exists>w'. handleWCONINJH X record vfp_table_nr bhp_def is_producer well_name loc w
               = Inr (w', [WCONINJH_reset_to_RATE (filename loc) (lineno loc) well_name m
                             (surfaceInjectionRate w')])
            \<and> controlMode w' = RATE \<and> hasInjectionControl RATE w'))"
proof (intro conjI impI)
  assume "defaultApplied (record ''TYPE'')"
  then show "handleWCONINJH X record vfp_table_nr bhp_def is_producer well_name loc w
        = Inl (invalid_argument ''Injection type can not be defaulted for keyword WCONINJH'')"
    by (simp add: handleWCONINJH_def)
next
  assume a: "\<not> defaultApplied (record ''TYPE'')
        \<and> InjectorTypeFromString X (getTrimmedString (record ''TYPE'')) = Inr ty
        \<and> WellInjectorCModeFromString X (getTrimmedString (record ''CMODE'')) = Inr m
        \<and> m \<noteq> RATE \<and> m \<noteq> BHP"
  have "\<exists>w'. handleWCONINJH X record vfp_table_nr bhp_def is_producer well_name loc w
               = Inr (w', [WCONINJH_reset_to_RATE (filename loc) (lineno loc) well_name m
                             (surfaceInjectionRate w')])
            \<and> controlMode w' = RATE \<and> hasInjectionControl RATE w'"
    by (rule WCONINJH_unsupported [where ty = ty]) (use a in simp_all)
  then show "\<exists>w'. handleWCONINJH X record vfp_table_nr bhp_def is_producer well_name loc w
               = Inr (w', [WCONINJH_reset_to_RATE (filename loc) (lineno loc) well_name m
                             (surfaceInjectionRate w')])
            \<and> controlMode w' = RATE \<and> hasInjectionControl RATE w'" .
qed

theorem WCONINJH_unsupported_control_reset_witness:
  "defaultApplied ((WCONINJH_WINJ1(''TYPE'' := defaulted_item)) ''TYPE'')
   \<and> handleWCONINJH plain_externals (WCONINJH_WINJ1(''TYPE'' := defaulted_item)) 0 1000 False
        ''WINJ1'' deck_location water_injector
       = Inl (invalid_argument ''Injection type can not be defaulted for keyword WCONINJH'')
   \<and> \<not> defaultApplied (WCONINJH_WINJ1 ''TYPE'')
   \<and> InjectorTypeFromString plain_externals (getTrimmedString (WCONINJH_WINJ1 ''TYPE'')) = Inr WATER
   \<and> WellInjectorCModeFromString plain_externals (getTrimmedString (WCONINJH_WINJ1 ''CMODE''))
       = Inr THP
   \<and> (\<exists>w'. handleWCONINJH plain_externals WCONINJH_WINJ1 0 1000 False ''WINJ1'' deck_location
              water_injector
             = Inr (w', [WCONINJH_reset_to_RATE (filename deck_location) (lineno deck_location)
                           ''WINJ1'' THP (surfaceInjectionRate w')])
          \<and> controlMode w' = RATE \<and> hasInjectionControl RATE w')"
proof -
  have h: "\<not> defaultApplied (WCONINJH_WINJ1 ''TYPE'')
     \<and> InjectorTypeFromString plain_externals (getTrimmedString (WCONINJH_WINJ1 ''TYPE'')) = Inr WATER
     \<and> WellInjectorCModeFromString plain_externals (getTrimmedString (WCONINJH_WINJ1 ''CMODE''))
         = Inr THP
     \<and> THP \<noteq> RATE \<and> THP \<noteq> BHP"
    by (simp add: fixture_defs)
  have d: "defaultApplied ((WCONINJH_WINJ1(''TYPE'' := defaulted_item)) ''TYPE'')"
    by (simp add: defaulted_item_def)
  from WCONINJH_unsupported_control_reset
         [of WCONINJH_WINJ1 plain_externals 0 1000 False "''WINJ1''" deck_location water_injector
             WATER THP, THEN conjunct2, rule_format, OF h]
       WCONINJH_unsupported_control_reset
         [of "WCONINJH_WINJ1(''TYPE'' := defaulted_item)" plain_externals 0 1000 False
             "''WINJ1''" deck_location water_injector, THEN conjunct1, rule_format, OF d]
       h d
  show ?thesis by blast
qed

text \<open>
  Claim C2 as stated asks the handler to fail on a control mode it does not support. With
  \<^verbatim>\<open>CMODE = THP\<close> it returns normally, with \<^verbatim>\<open>RATE\<close> substituted and a warning logged.
\<close>

theorem WCONINJH_unsupported_control_counterexample:
  "handleWCONINJH plain_externals WCONINJH_WINJ1 0 1000 False ''WINJ1'' deck_location water_injector
   = Inr (\<lparr>name = ''WINJ1'', surfaceInjectionRate = UDADouble 1500,
         reservoirInjectionRate = UDADouble 0, BHPTarget = UDADouble 0,
         THPTarget = UDADouble 0, bhp_hist_limit = 1000, thp_hist_limit = 0,
         BHPH = 30000000, THPH = 0, VFPTableNumber = 0,
         predictionMode = False, injectionControls = 5,
         injectorType = WATER, controlMode = RATE, rsRvInj = 0,
         gas_inj_composition = None\<rparr>,
      [WCONINJH_reset_to_RATE ''UDQ_TEST_WCONPROD_IUAD-2.DATA'' 453
        ''WINJ1'' THP (UDADouble 1500)])
   \<and> getTrimmedString (WCONINJH_WINJ1 ''CMODE'') = ''THP''"
  by (simp add: WCONINJH_WINJ1_result) (simp add: fixture_defs)

text \<open>
  Claim C9. Whenever \<^verbatim>\<open>handleWCONINJE\<close> or \<^verbatim>\<open>handleWCONINJH\<close> returns normally, the
  \<^verbatim>\<open>BHP\<close> control is in the set of active injection controls, and so is the control mode
  the handler selected.
\<close>

theorem WCONINJE_WCONINJH_controls:
  "(handleWCONINJE X record bhp_def availableForGroupControl well_name location w = Inr w'
      \<longrightarrow> hasInjectionControl BHP w' \<and> hasInjectionControl (controlMode w') w')
   \<and> (handleWCONINJH X record vfp_table_nr bhp_def is_producer well_name loc w = Inr (w'', msgs)
      \<longrightarrow> hasInjectionControl BHP w'' \<and> hasInjectionControl (controlMode w'') w'')"
  using WCONINJE_controls WCONINJH_controls by blast

theorem WCONINJE_WCONINJH_controls_witness:
  "(case handleWCONINJE plain_externals WCONINJE_WINJ1 1000 True ''WINJ1'' deck_location
           water_injector of
      Inl e \<Rightarrow> False
    | Inr w' \<Rightarrow> hasInjectionControl BHP w' \<and> hasInjectionControl (controlMode w') w')
   \<and> (case handleWCONINJH plain_externals WCONINJH_WINJ1 0 1000 False ''WINJ1'' deck_location
             water_injector of
        Inl e \<Rightarrow> False
      | Inr (w', msgs) \<Rightarrow> hasInjectionControl BHP w' \<and> hasInjectionControl (controlMode w') w')"
proof -
  obtain a where a: "handleWCONINJE plain_externals WCONINJE_WINJ1 1000 True ''WINJ1''
                       deck_location water_injector = Inr a"
    using WCONINJE_WINJ1_result by blast
  obtain b ms where b: "handleWCONINJH plain_externals WCONINJH_WINJ1 0 1000 False ''WINJ1''
                          deck_location water_injector = Inr (b, ms)"
    using WCONINJH_WINJ1_result by blast
  from WCONINJE_WCONINJH_controls [THEN conjunct1, rule_format, OF a]
       WCONINJE_WCONINJH_controls [THEN conjunct2, rule_format, OF b]
  show ?thesis by (simp add: a b)
qed

subsection \<open>Registering active UDAs\<close>

lemma UDQActive_update_state:
  "snd (UDQActive_update X c v n k a) =
     a((n, k) := (if uda_is_double X v then None else Some (uda_get_string X v)))"
  by (auto simp: UDQActive_update_def)

lemma UDQActive_update_count:
  "fst (UDQActive_update X c v n k a) =
     (if a (n, k) = (if uda_is_double X v then None else Some (uda_get_string X v))
      then 0 else 1)"
  by (auto simp: UDQActive_update_def)

lemma UDQActive_update_changed:
  "fst (UDQActive_update X c v n k a) = (if snd (UDQActive_update X c v n k a) = a then 0 else 1)"
  by (auto simp: UDQActive_update_def fun_upd_idem_iff)

lemma UDQActive_update_twice:
  "fst (UDQActive_update X c v n k (snd (UDQActive_update X c v n k a))) = 0"
  by (simp add: UDQActive_update_count UDQActive_update_state)

lemma updateUDQActive_twice:
  "fst (updateUDQActive X c w (snd (updateUDQActive X c w a))) = False"
  by (simp add: updateUDQActive_def split_def Let_def UDQActive_update_count
      UDQActive_update_state)

lemma updateUDQActive_cmode_twice:
  "fst (updateUDQActive_cmode X c cmode w (snd (updateUDQActive_cmode X c cmode w a))) = False"
  by (cases cmode)
     (simp_all add: updateUDQActive_cmode_def split_def Let_def UDQActive_update_count
        UDQActive_update_state)

text \<open>
  Claim C3. \<^verbatim>\<open>update\<close> returns 1 exactly when the registration changes the tracked state
  and 0 otherwise; repeating a registration with the same arguments returns 0; and a second
  identical call of either \<^verbatim>\<open>updateUDQActive\<close> returns false.
\<close>

theorem UDQActive_update_idempotent:
  "fst (UDQActive_update X c v n k a) = (if snd (UDQActive_update X c v n k a) = a then 0 else 1)
   \<and> fst (UDQActive_update X c v n k (snd (UDQActive_update X c v n k a))) = 0
   \<and> fst (updateUDQActive X c w (snd (updateUDQActive X c w a))) = False
   \<and> fst (updateUDQActive_cmode X c cmode w (snd (updateUDQActive_cmode X c cmode w a))) = False"
proof (intro conjI)
  show "fst (UDQActive_update X c v n k a)
          = (if snd (UDQActive_update X c v n k a) = a then 0 else 1)"
    by (rule UDQActive_update_changed)
  show "fst (UDQActive_update X c v n k (snd (UDQActive_update X c v n k a))) = 0"
    by (rule UDQActive_update_twice)
  show "fst (updateUDQActive X c w (snd (updateUDQActive X c w a))) = False"
    by (rule updateUDQActive_twice)
  show "fst (updateUDQActive_cmode X c cmode w (snd (updateUDQActive_cmode X c cmode w a)))
          = False"
    by (rule updateUDQActive_cmode_twice)
qed

section \<open>Results on the UDQ expression evaluator\<close>

lemmas deck_udq_defs =
  load_statements_def deck_udq_statements_def context_WOPR_def eval_udq_def target_type_def
  value_at_def apply_binary_def scale_def scalar_def

lemma deck_config_WUOPRL:
  "map_of (load_statements deck_udq_statements) ''WUOPRL'' =
     Some (Defined (BinaryOperator 1 MUL
             (BinaryOperator 1 SUB (Reference 1 ''WOPR'' [''PROD1'']) (Number 170))
             (Number 0.60)))"
  by (simp add: load_statements_def deck_udq_statements_def)

lemma deck_WUOPRL_value:
  "eval_udq (load_statements deck_udq_statements) (context_WOPR x) ''WUOPRL'' ''PROD1''
     = Inr (Some ((x - 170) * 0.60))"
  by (simp add: eval_udq_def deck_config_WUOPRL)
     (simp add: context_WOPR_def target_type_def value_at_def apply_binary_def scale_def
        scalar_def)

lemma map_of_put: "map_of (put k v config) k = Some v"
  by (induction config) auto

text \<open>
  Claim C7. A \<^verbatim>\<open>DEFINE\<close> replaces whatever the configuration held for the name: after it,
  the name is bound to the new expression, whatever was defined or assigned before. For
  the test deck, where \<^verbatim>\<open>WUOPRL\<close> is defined as
  \<^verbatim>\<open>(WOPR PROD1 - 150) * 0.90\<close> and later as \<^verbatim>\<open>(WOPR PROD1 - 170) * 0.60\<close>, the value of
  \<^verbatim>\<open>WUOPRL\<close> for \<^verbatim>\<open>PROD1\<close> with an oil rate of 300 is 78, not 135.
\<close>

theorem DEFINE_last_definition_wins:
  "map_of (add_statement (foldl add_statement (add_statement config (DEFINE udq_name e1)) others)
             (DEFINE udq_name e2)) udq_name = Some (Defined e2)
   \<and> eval_udq (load_statements deck_udq_statements) (context_WOPR 300) ''WUOPRL'' ''PROD1''
       = Inr (Some 78)
   \<and> eval_udq (load_statements deck_udq_statements) (context_WOPR 300) ''WUOPRL'' ''PROD1''
       \<noteq> Inr (Some 135)"
  by (simp add: map_of_put deck_WUOPRL_value)

subsection \<open>UADD and addition\<close>

lemma entry_op_UADD_ADD:
  "a \<noteq> None \<Longrightarrow> b \<noteq> None \<Longrightarrow> entry_op UADD a b = entry_op ADD a b"
  by (cases a; cases b) simp_all

lemma map_entry_cong:
  "(\<And>n v. (n, v) \<in> set es \<Longrightarrow> f v = g v)
   \<Longrightarrow> map (\<lambda>(n, v). (n, f v)) es = map (\<lambda>(n, v). (n, g v)) es"
  by (induction es) auto

lemma defined_entry:
  "list_all (\<lambda>e. snd e \<noteq> None) es \<Longrightarrow> (n, v) \<in> set es \<Longrightarrow> v \<noteq> None"
  by (auto simp: list_all_iff)

lemma elementwise_UADD_ADD:
  assumes xs: "list_all (\<lambda>e. snd e \<noteq> None) xs" and ys: "list_all (\<lambda>e. snd e \<noteq> None) ys"
  shows "map (\<lambda>((n, a), (_, b)). (n, entry_op UADD a b)) (zip xs ys)
       = map (\<lambda>((n, a), (_, b)). (n, entry_op ADD a b)) (zip xs ys)"
proof -
  have "entry_op UADD a b = entry_op ADD a b"
    if "((n, a), (m, b)) \<in> set (zip xs ys)" for n a m b
  proof -
    from that have mem: "(n, a) \<in> set xs" "(m, b) \<in> set ys"
      by (auto dest: set_zip_leftD set_zip_rightD)
    have "a \<noteq> None"
      using mem(1) by (rule defined_entry [OF xs])
    moreover have "b \<noteq> None"
      using mem(2) by (rule defined_entry [OF ys])
    ultimately show ?thesis by (rule entry_op_UADD_ADD)
  qed
  then show ?thesis by auto
qed

lemma apply_binary_UADD_ADD:
  assumes "fully_defined A" and "fully_defined B"
  shows "apply_binary UADD A B = apply_binary ADD A B"
proof -
  have A: "list_all (\<lambda>e. snd e \<noteq> None) (entries A)"
    and B: "list_all (\<lambda>e. snd e \<noteq> None) (entries B)"
    using assms by (simp_all add: fully_defined_def)
  have l: "(case entries A of
              [(_, a)] \<Rightarrow> Inr (B\<lparr>entries := map (\<lambda>(n, b). (n, entry_op UADD a b)) (entries B)\<rparr>)
            | _ \<Rightarrow> Inl incompatible_shapes)
         = (case entries A of
              [(_, a)] \<Rightarrow> Inr (B\<lparr>entries := map (\<lambda>(n, b). (n, entry_op ADD a b)) (entries B)\<rparr>)
            | _ \<Rightarrow> Inl incompatible_shapes)"
  proof (cases "\<exists>k a. entries A = [(k, a)]")
    case True
    then obtain k a where ka: "entries A = [(k, a)]" by blast
    have a: "a \<noteq> None"
      by (rule defined_entry [OF A, of k]) (simp add: ka)
    have "map (\<lambda>(n, b). (n, entry_op UADD a b)) (entries B)
        = map (\<lambda>(n, b). (n, entry_op ADD a b)) (entries B)"
    proof (rule map_entry_cong)
      fix n b assume "(n, b) \<in> set (entries B)"
      then have "b \<noteq> None" by (rule defined_entry [OF B])
      with a show "entry_op UADD a b = entry_op ADD a b" by (rule entry_op_UADD_ADD)
    qed
    then show ?thesis by (simp add: ka)
  next
    case False
    then show ?thesis by (auto split: list.splits)
  qed
  have r: "(case entries B of
              [(_, b)] \<Rightarrow> Inr (A\<lparr>entries := map (\<lambda>(n, a). (n, entry_op UADD a b)) (entries A)\<rparr>)
            | _ \<Rightarrow> Inl incompatible_shapes)
         = (case entries B of
              [(_, b)] \<Rightarrow> Inr (A\<lparr>entries := map (\<lambda>(n, a). (n, entry_op ADD a b)) (entries A)\<rparr>)
            | _ \<Rightarrow> Inl incompatible_shapes)"
  proof (cases "\<exists>k b. entries B = [(k, b)]")
    case True
    then obtain k b where kb: "entries B = [(k, b)]" by blast
    have b: "b \<noteq> None"
      by (rule defined_entry [OF B, of k]) (simp add: kb)
    have "map (\<lambda>(n, a). (n, entry_op UADD a b)) (entries A)
        = map (\<lambda>(n, a). (n, entry_op ADD a b)) (entries A)"
    proof (rule map_entry_cong)
      fix n a assume "(n, a) \<in> set (entries A)"
      then have "a \<noteq> None" by (rule defined_entry [OF A])
      then show "entry_op UADD a b = entry_op ADD a b" using b by (rule entry_op_UADD_ADD)
    qed
    then show ?thesis by (simp add: kb)
  next
    case False
    then show ?thesis by (auto split: list.splits)
  qed
  note e = elementwise_UADD_ADD [OF A B]
  show ?thesis
    by (simp only: apply_binary_def l r e)
qed

text \<open>
  Claim C6. For Value Sets \<open>A\<close> and \<open>B\<close> in which every entry is defined, \<^verbatim>\<open>A UADD B\<close> gives
  the same result as \<^verbatim>\<open>A + B\<close>: on the Sets themselves, and for the two operator nodes over
  operands that evaluate to such Sets.
\<close>

theorem UADD_is_ADD_on_defined:
  "(fully_defined A \<and> fully_defined B \<longrightarrow> apply_binary UADD A B = apply_binary ADD A B)
   \<and> (eval eval_target context left = Inr A \<and> eval eval_target context right = Inr B
        \<and> fully_defined A \<and> fully_defined B \<longrightarrow>
      eval eval_target context (BinaryOperator sign_factor UADD left right)
        = eval eval_target context (BinaryOperator sign_factor ADD left right))"
  by (simp add: apply_binary_UADD_ADD)

theorem UADD_is_ADD_on_defined_witness:
  "fully_defined \<lparr>var_type = FIELD_VAR, entries = [(''FIELD'', Some 1000)]\<rparr>
   \<and> fully_defined (scalar (Some 3))
   \<and> apply_binary UADD \<lparr>var_type = FIELD_VAR, entries = [(''FIELD'', Some 1000)]\<rparr>
        (scalar (Some 3))
       = apply_binary ADD \<lparr>var_type = FIELD_VAR, entries = [(''FIELD'', Some 1000)]\<rparr>
           (scalar (Some 3))
   \<and> apply_binary ADD \<lparr>var_type = FIELD_VAR, entries = [(''FIELD'', Some 1000)]\<rparr>
        (scalar (Some 3))
       = Inr \<lparr>var_type = FIELD_VAR, entries = [(''FIELD'', Some 1003)]\<rparr>
   \<and> eval FIELD_VAR (context_WOPR 300)
        (BinaryOperator 1 UADD (Reference 1 ''FLPR'' []) (Reference 1 ''WOPR'' [''PROD1'']))
       = eval FIELD_VAR (context_WOPR 300)
           (BinaryOperator 1 ADD (Reference 1 ''FLPR'' []) (Reference 1 ''WOPR'' [''PROD1'']))"
proof -
  have d: "fully_defined \<lparr>var_type = FIELD_VAR, entries = [(''FIELD'', Some 1000)]\<rparr>
           \<and> fully_defined (scalar (Some 3))"
    by (simp add: fully_defined_def scalar_def)
  have l: "eval FIELD_VAR (context_WOPR 300) (Reference 1 ''FLPR'' [])
             = Inr \<lparr>var_type = FIELD_VAR, entries = [(''FIELD'', Some 1000)]\<rparr>"
    by (simp add: context_WOPR_def scale_def)
  have r: "eval FIELD_VAR (context_WOPR 300) (Reference 1 ''WOPR'' [''PROD1''])
             = Inr \<lparr>var_type = WELL_VAR, entries = [(''PROD1'', Some 300)]\<rparr>"
    by (simp add: context_WOPR_def scale_def)
  have d': "fully_defined \<lparr>var_type = WELL_VAR, entries = [(''PROD1'', Some 300)]\<rparr>"
    by (simp add: fully_defined_def)
  have v: "apply_binary ADD \<lparr>var_type = FIELD_VAR, entries = [(''FIELD'', Some 1000)]\<rparr>
             (scalar (Some 3))
           = Inr \<lparr>var_type = FIELD_VAR, entries = [(''FIELD'', Some 1003)]\<rparr>"
    by (simp add: apply_binary_def scalar_def)
  from UADD_is_ADD_on_defined [THEN conjunct1, rule_format, OF d]
       UADD_is_ADD_on_defined [THEN conjunct2, rule_format, of FIELD_VAR "context_WOPR 300"
         "Reference 1 ''FLPR'' []" _ "Reference 1 ''WOPR'' [''PROD1'']" _ 1] l r d d' v
  show ?thesis by simp
qed

subsection \<open>The domain of LOG\<close>

lemma log_entries_domain:
  "(n, Some x) \<in> set es \<Longrightarrow> x \<le> 0 \<Longrightarrow> \<exists>y\<le>0. log_entries es = Inl (domain_error ''LOG'' y)"
proof (induction es rule: log_entries.induct)
  case 1
  then show ?case by simp
next
  case (2 m es)
  then show ?case by auto
next
  case (3 m z es)
  then show ?case by (cases "z \<le> 0") auto
qed

text \<open>
  Claim C5. \<^verbatim>\<open>LOG(x)\<close> for a number \<open>x \<le> 0\<close> fails with a domain error that reports \<open>x\<close>; and
  \<^verbatim>\<open>LOG\<close> of any operand whose Value Set has a defined entry \<open>x \<le> 0\<close> fails with a domain
  error that reports a non-positive argument. No Set is returned in either case.
\<close>

theorem LOG_domain_error:
  "(x \<le> 0 \<longrightarrow>
      eval eval_target context (UnaryFunction sign_factor LOG_fn (Number x))
        = Inl (domain_error ''LOG'' x))
   \<and> (eval eval_target context operand = Inr S \<and> (n, Some x) \<in> set (entries S) \<and> x \<le> 0 \<longrightarrow>
        (\<exists>y\<le>0. eval eval_target context (UnaryFunction sign_factor LOG_fn operand)
                  = Inl (domain_error ''LOG'' y)))"
proof (intro conjI impI)
  assume "x \<le> 0"
  then show "eval eval_target context (UnaryFunction sign_factor LOG_fn (Number x))
               = Inl (domain_error ''LOG'' x)"
    by (simp add: scalar_def)
next
  assume a: "eval eval_target context operand = Inr S \<and> (n, Some x) \<in> set (entries S) \<and> x \<le> 0"
  then obtain y where "y \<le> 0" and "log_entries (entries S) = Inl (domain_error ''LOG'' y)"
    using log_entries_domain by blast
  with a show "\<exists>y\<le>0. eval eval_target context (UnaryFunction sign_factor LOG_fn operand)
                       = Inl (domain_error ''LOG'' y)"
    by auto
qed

theorem LOG_domain_error_witness:
  "eval FIELD_VAR (context_WOPR 300) (UnaryFunction 1 LOG_fn (Number 0))
     = Inl (domain_error ''LOG'' 0)
   \<and> eval WELL_VAR (context_WOPR (- 5))
        (UnaryFunction 1 LOG_fn (Reference 1 ''WOPR'' [])) = Inl (domain_error ''LOG'' (- 5))"
proof -
  have e: "eval WELL_VAR (context_WOPR (- 5)) (Reference 1 ''WOPR'' [])
             = Inr \<lparr>var_type = WELL_VAR, entries = [(''PROD1'', Some (- 5)), (''PROD2'', Some 200)]\<rparr>
           \<and> (''PROD1'', Some (- 5))
               \<in> set (entries \<lparr>var_type = WELL_VAR,
                               entries = [(''PROD1'', Some (- 5)), (''PROD2'', Some 200)]\<rparr>)
           \<and> (- 5 :: real) \<le> 0"
    by (simp add: context_WOPR_def scale_def)
  have z: "(0 :: real) \<le> 0" by simp
  from LOG_domain_error [THEN conjunct1, rule_format, OF z, of FIELD_VAR "context_WOPR 300" 1]
       LOG_domain_error [THEN conjunct2, rule_format, OF e, of 1]
  show ?thesis by (auto simp: context_WOPR_def scale_def)
qed

end
